theory Spec2Isabelle
  imports Complex_Main
begin

section \<open>Conventions of the embedding\<close>

text \<open>
  The program is a TypeScript trading bot: a VWAP calculator (\<^verbatim>\<open>vwap.ts\<close>), an indicator
  library (\<^verbatim>\<open>utils/indicators.ts\<close>), a risk manager (\<^verbatim>\<open>risk-manager.ts\<close>), a strategy
  state machine (\<^verbatim>\<open>strategy.ts\<close>) and a replay driver (\<^verbatim>\<open>backtest.ts\<close>).

  \<^item> A JavaScript \<^verbatim>\<open>number\<close> that holds a price, a volume, an amount of money or a
    threshold is a \<^typ>\<open>real\<close>. In the definitions that carry the source's names
    arithmetic is exact; the VWAP calculator is given a second time with every arithmetic
    result rounded as an IEEE double is (\<open>updateVWAP_fl\<close>, \<open>getVWAP_fl\<close>), and the property of
    its running sums is settled there. NaN, the infinities and the sign of zero are outside
    the model. Where the source divides by a value that may be zero this is said at the
    definition.
  \<^item> A time is an \<^typ>\<open>int\<close>: milliseconds since the epoch, as \<^verbatim>\<open>Date.getTime()\<close> gives them.
    Counters and sample counts are \<^typ>\<open>int\<close> or \<^typ>\<open>nat\<close>.
  \<^item> \<^verbatim>\<open>T | null\<close> and an optional field are \<^typ>\<open>'a option\<close>; a \<^verbatim>\<open>Map<string, V>\<close> is a
    finite map \<^typ>\<open>string \<rightharpoonup> 'v\<close>, its \<^verbatim>\<open>size\<close> the cardinality of its domain.
  \<^item> The functions of the risk manager and of the strategy return their value together with
    the log lines they emit (the text of a line is cut down to its constant part; a line of
    the trade log keeps its fields). The one debug line of the VWAP calculator and the
    progress lines of the replay driver are not modelled.
  \<^item> \<^verbatim>\<open>Math.random()\<close> and \<^verbatim>\<open>Date.now()\<close> are inputs: every call site receives the value
    it draws as an argument.
\<close>

subsection \<open>JavaScript helpers\<close>

text \<open>\<^verbatim>\<open>a || b\<close> for \<^verbatim>\<open>a: number | undefined\<close>: \<^verbatim>\<open>undefined\<close> and \<^verbatim>\<open>0\<close> are falsy.\<close>

definition orElse :: "real option \<Rightarrow> real \<Rightarrow> real" where
  "orElse a b = (case a of None \<Rightarrow> b | Some x \<Rightarrow> if x = 0 then b else x)"

text \<open>\<^verbatim>\<open>xs.slice(-n)\<close> for \<^verbatim>\<open>n \<ge> 0\<close>: the last \<open>n\<close> elements, all of them when \<open>n\<close> is
  \<open>0\<close> (\<^verbatim>\<open>slice(-0)\<close> is \<^verbatim>\<open>slice(0)\<close>) or exceeds the length.\<close>

definition slice_last :: "nat \<Rightarrow> 'a list \<Rightarrow> 'a list" where
  "slice_last n xs = (if n = 0 then xs else drop (length xs - n) xs)"

text \<open>\<^verbatim>\<open>new Date(t).getUTCHours()\<close> and \<^verbatim>\<open>getUTCMinutes()\<close>.\<close>

definition getUTCHours :: "int \<Rightarrow> int" where
  "getUTCHours t = (t div 3600000) mod 24"

definition getUTCMinutes :: "int \<Rightarrow> int" where
  "getUTCMinutes t = (t div 60000) mod 60"

text \<open>
  The local calendar of \<^verbatim>\<open>Date\<close> is that of the process's time zone, which is not part of
  the repository. It is modelled for a zone at a fixed offset \<open>tz\<close> (milliseconds east of
  UTC, no daylight saving): \<open>getDate\<close> is the day of the month of the proleptic Gregorian
  calendar, \<open>nextLocalMidnight\<close> is what
  \<^verbatim>\<open>d.setDate(d.getDate() + 1); d.setHours(0, 0, 0, 0); d.getTime()\<close> gives.
\<close>

definition getDate :: "int \<Rightarrow> int \<Rightarrow> int" where
  "getDate tz t =
     (let z = (t + tz) div 86400000 + 719468;
          era = z div 146097;
          doe = z - era * 146097;
          yoe = (doe - doe div 1460 + doe div 36524 - doe div 146096) div 365;
          doy = doe - (365 * yoe + yoe div 4 - yoe div 100);
          mp = (5 * doy + 2) div 153
      in doy - (153 * mp + 2) div 5 + 1)"

definition nextLocalMidnight :: "int \<Rightarrow> int \<Rightarrow> int" where
  "nextLocalMidnight tz t = ((t + tz) div 86400000 + 1) * 86400000 - tz"

section \<open>VWAP calculator (vwap.ts)\<close>

record VWAPData =
  price :: real
  high :: real
  low :: real
  volume :: real
  timestamp :: int
  vwap :: "real option"

record VWAPState =
  period :: int
  dataPoints :: "VWAPData list"
  cumulativePriceVolume :: real
  cumulativeVolume :: real

definition createVWAPState :: "int \<Rightarrow> VWAPState" where
  "createVWAPState p =
     \<lparr>period = p, dataPoints = [], cumulativePriceVolume = 0, cumulativeVolume = 0\<rparr>"

text \<open>
  \<open>updateVWAP now state price volume high low\<close>; \<open>now\<close> is the reading of \<^verbatim>\<open>Date.now()\<close>.
  The \<open>vwap\<close> stored with the sample divides by \<open>cumulativeVolume + volume\<close>, which is zero
  only for a negative volume (the quotient is then \<open>0\<close> here, not a number in JavaScript).
\<close>

definition updateVWAP ::
  "int \<Rightarrow> VWAPState \<Rightarrow> real \<Rightarrow> real \<Rightarrow> real option \<Rightarrow> real option \<Rightarrow> VWAPState" where
  "updateVWAP now state price' volume' high' low' =
     (let h = orElse high' price';
          l = orElse low' price';
          currentVWAP =
            (if cumulativeVolume state > 0
             then Some ((cumulativePriceVolume state + price' * volume') /
                        (cumulativeVolume state + volume'))
             else None);
          newDataPoint = \<lparr>price = price', high = h, low = l, volume = volume',
                          timestamp = now, vwap = currentVWAP\<rparr>;
          newDataPoints = dataPoints state @ [newDataPoint];
          newCumulativePV = cumulativePriceVolume state + price' * volume';
          newCumulativeV = cumulativeVolume state + volume'
      in if period state > 0 \<and> int (length newDataPoints) > period state
         then (let removed = hd newDataPoints
               in state\<lparr>dataPoints := tl newDataPoints,
                        cumulativePriceVolume := newCumulativePV - price removed * volume removed,
                        cumulativeVolume := newCumulativeV - volume removed\<rparr>)
         else state\<lparr>dataPoints := newDataPoints,
                    cumulativePriceVolume := newCumulativePV,
                    cumulativeVolume := newCumulativeV\<rparr>)"

definition getVWAP :: "VWAPState \<Rightarrow> real option" where
  "getVWAP state =
     (if cumulativeVolume state = 0 then None
      else if period state > 0 \<and> int (length (dataPoints state)) < period state then None
      else Some (cumulativePriceVolume state / cumulativeVolume state))"

text \<open>A call of \<open>updateVWAP\<close> as data, and a run of calls from \<open>createVWAPState\<close>.\<close>

record Tick =
  tick_now :: int
  tick_price :: real
  tick_volume :: real
  tick_high :: "real option"
  tick_low :: "real option"

definition applyTick :: "VWAPState \<Rightarrow> Tick \<Rightarrow> VWAPState" where
  "applyTick s u = updateVWAP (tick_now u) s (tick_price u) (tick_volume u) (tick_high u) (tick_low u)"

definition runTicks :: "int \<Rightarrow> Tick list \<Rightarrow> VWAPState" where
  "runTicks p us = foldl applyTick (createVWAPState p) us"

text \<open>
  The specification's side of the VWAP claims: the volume-weighted average of a list of
  (price, volume) samples is the sum of price times volume over the sum of volume, and is
  undefined when the volumes sum to zero.
\<close>

definition volumeWeightedAverage :: "(real \<times> real) list \<Rightarrow> real option" where
  "volumeWeightedAverage xs =
     (if sum_list (map snd xs) = 0 then None
      else Some (sum_list (map (\<lambda>(p, v). p * v) xs) / sum_list (map snd xs)))"

definition sampleOf :: "VWAPData \<Rightarrow> real \<times> real" where
  "sampleOf d = (price d, volume d)"

definition tickSample :: "Tick \<Rightarrow> real \<times> real" where
  "tickSample u = (tick_price u, tick_volume u)"


section \<open>The VWAP calculator in double precision\<close>

subsection \<open>Rounding to a double\<close>

text \<open>
  A JavaScript \<^verbatim>\<open>number\<close> is an IEEE 754 binary64 value, and \<^verbatim>\<open>+\<close>, \<^verbatim>\<open>-\<close>, \<^verbatim>\<open>*\<close>, \<^verbatim>\<open>/\<close> and
  the reading of a decimal literal return the exact result rounded to the nearest double,
  ties to the even significand. \<open>scale n x\<close> is the largest power of two that is at most
  \<open>x > 0\<close>, found in at most \<open>n\<close> halvings or doublings; \<open>ulp x\<close> is the distance between
  neighbouring doubles around \<open>x\<close>: \<open>2 ^ e / 2 ^ 52\<close> when \<open>2 ^ e \<le> \<bar>x\<bar> < 2 ^ (e + 1)\<close>, and
  \<open>1 / 2 ^ 1074\<close> below \<open>1 / 2 ^ 1022\<close>, where the doubles are subnormal.
\<close>

fun scale :: "nat \<Rightarrow> real \<Rightarrow> real" where
  "scale 0 x = 1"
| "scale (Suc n) x =
     (if 2 \<le> x then 2 * scale n (x / 2)
      else if x < 1 then scale n (2 * x) / 2
      else 1)"

definition ulp :: "real \<Rightarrow> real" where
  "ulp x = max (scale 1100 \<bar>x\<bar>) (1 / 2 ^ 1022) / 2 ^ 52"

text \<open>The nearest integer, a tie going to the even one.\<close>

definition roundHalfEven :: "real \<Rightarrow> int" where
  "roundHalfEven y =
     (let f = \<lfloor>y\<rfloor>
      in if y - of_int f < 1 / 2 then f
         else if 1 / 2 < y - of_int f then f + 1
         else if even f then f else f + 1)"

text \<open>
  \<open>double x\<close> is the double nearest to \<open>x\<close>. JavaScript returns an infinity where the rounded
  magnitude reaches \<open>2 ^ 1024\<close>; \<open>finiteDouble x\<close> says that it does not, and \<open>representable x\<close>
  that \<open>x\<close> is itself a finite double.
\<close>

definition double :: "real \<Rightarrow> real" where
  "double x = (if x = 0 then 0 else of_int (roundHalfEven (x / ulp x)) * ulp x)"



subsection \<open>The calculator with rounded arithmetic\<close>

text \<open>
  \<open>updateVWAP\<close> and \<open>getVWAP\<close> once more, every sum, difference, product and quotient of the
  source passed through \<open>fl\<close>. With \<open>fl = double\<close> this is the arithmetic of the program; with
  the identity it is the calculator of the section above.
\<close>

definition updateVWAP_fl ::
  "(real \<Rightarrow> real) \<Rightarrow> int \<Rightarrow> VWAPState \<Rightarrow> real \<Rightarrow> real \<Rightarrow> real option \<Rightarrow> real option \<Rightarrow> VWAPState" where
  "updateVWAP_fl fl now state price' volume' high' low' =
     (let h = orElse high' price';
          l = orElse low' price';
          currentVWAP =
            (if cumulativeVolume state > 0
             then Some (fl (fl (cumulativePriceVolume state + fl (price' * volume')) /
                            fl (cumulativeVolume state + volume')))
             else None);
          newDataPoint = \<lparr>price = price', high = h, low = l, volume = volume',
                          timestamp = now, vwap = currentVWAP\<rparr>;
          newDataPoints = dataPoints state @ [newDataPoint];
          newCumulativePV = fl (cumulativePriceVolume state + fl (price' * volume'));
          newCumulativeV = fl (cumulativeVolume state + volume')
      in if period state > 0 \<and> int (length newDataPoints) > period state
         then (let removed = hd newDataPoints
               in state\<lparr>dataPoints := tl newDataPoints,
                        cumulativePriceVolume :=
                          fl (newCumulativePV - fl (price removed * volume removed)),
                        cumulativeVolume := fl (newCumulativeV - volume removed)\<rparr>)
         else state\<lparr>dataPoints := newDataPoints,
                    cumulativePriceVolume := newCumulativePV,
                    cumulativeVolume := newCumulativeV\<rparr>)"

definition getVWAP_fl :: "(real \<Rightarrow> real) \<Rightarrow> VWAPState \<Rightarrow> real option" where
  "getVWAP_fl fl state =
     (if cumulativeVolume state = 0 then None
      else if period state > 0 \<and> int (length (dataPoints state)) < period state then None
      else Some (fl (cumulativePriceVolume state / cumulativeVolume state)))"

definition applyTick_fl :: "(real \<Rightarrow> real) \<Rightarrow> VWAPState \<Rightarrow> Tick \<Rightarrow> VWAPState" where
  "applyTick_fl fl s u =
     updateVWAP_fl fl (tick_now u) s (tick_price u) (tick_volume u) (tick_high u) (tick_low u)"

definition runTicks_fl :: "(real \<Rightarrow> real) \<Rightarrow> int \<Rightarrow> Tick list \<Rightarrow> VWAPState" where
  "runTicks_fl fl p us = foldl (applyTick_fl fl) (createVWAPState p) us"

subsection \<open>The values a run computes\<close>

text \<open>
  For a list of (price, volume) samples: the sums of the specification, the samples that a
  window of period \<open>p\<close> retains, and the exact values of everything a run of \<open>updateVWAP\<close>
  calls computes for its running sums when no result is rounded: at each call the product
  of the new sample, the two sums with the new sample added, the product of the oldest
  sample, and the two sums of the window after the call. \<open>noRounding p xs\<close> says that each of
  them is a finite double, and that the quotient \<open>getVWAP\<close> forms at the end does not
  overflow.
\<close>

definition sumPV :: "(real \<times> real) list \<Rightarrow> real" where
  "sumPV xs = sum_list (map (\<lambda>(a, v). a * v) xs)"

definition sumV :: "(real \<times> real) list \<Rightarrow> real" where
  "sumV xs = sum_list (map snd xs)"

definition retained :: "int \<Rightarrow> 'a list \<Rightarrow> 'a list" where
  "retained p xs = (if p > 0 then drop (length xs - nat p) xs else xs)"

definition stepValues :: "int \<Rightarrow> (real \<times> real) list \<Rightarrow> real \<times> real \<Rightarrow> real list" where
  "stepValues p ys x =
     [fst x * snd x,
      sumPV (retained p ys @ [x]), sumV (retained p ys @ [x]),
      fst (hd (retained p ys @ [x])) * snd (hd (retained p ys @ [x])),
      sumPV (retained p (ys @ [x])), sumV (retained p (ys @ [x]))]"

fun computedValues :: "int \<Rightarrow> (real \<times> real) list \<Rightarrow> (real \<times> real) list \<Rightarrow> real list" where
  "computedValues p ys [] = []"
| "computedValues p ys (x # xs) = stepValues p ys x @ computedValues p (ys @ [x]) xs"



section \<open>Configuration (config.ts)\<close>

text \<open>
  The fields of \<^verbatim>\<open>Config\<close> that the modelled functions read, in one record (the source nests
  them under \<^verbatim>\<open>trading.schedule\<close>, \<^verbatim>\<open>strategy.vwap\<close>, \<^verbatim>\<open>strategy.filters\<close>,
  \<^verbatim>\<open>strategy.position\<close>, \<^verbatim>\<open>strategy.risk\<close> and \<^verbatim>\<open>backtesting\<close>). A field that is optional
  in the interface is an option. \<open>start_time\<close> and \<open>end_time\<close> hold the pair of numbers that
  \<^verbatim>\<open>"HH:MM".split(':').map(Number)\<close> yields; \<open>position_size\<close> is \<^verbatim>\<open>strategy.position.size\<close>
  and \<open>vwap_period\<close> is \<^verbatim>\<open>strategy.vwap.period\<close>.
\<close>

datatype sizing = fixed | risk_pct

record Config =
  start_time :: "int \<times> int"
  end_time :: "int \<times> int"
  vwap_period :: int
  entry_threshold :: real
  require_confirmation :: "bool option"
  min_volume_mult :: real
  chop_threshold :: real
  rsi_period :: "nat option"
  rsi_oversold :: "real option"
  rsi_overbought :: "real option"
  min_atr_pct :: "real option"
  position_size :: real
  sizing_type :: "sizing option"
  max_risk_pct :: "real option"
  max_positions :: int
  stop_loss_pct :: real
  take_profit_pct :: real
  max_daily_loss :: real
  max_hold_seconds :: "real option"
  trailing_stop :: bool
  trailing_stop_pct :: real
  max_trades_per_day :: int
  max_losses_per_day :: int
  cooldown_minutes :: real
  initial_capital :: "real option"

section \<open>Log output (utils/logger.ts)\<close>

datatype level = Info | Debug | Warn | Error

datatype side = long | short

text \<open>The JSON objects written to the trade log by the strategy.\<close>

record EnterEvent =
  enter_side :: side
  enter_symbol :: string
  enter_price :: real
  enter_quantity :: real
  enter_stopLoss :: real
  enter_takeProfit :: real
  enter_timestamp :: int

record ExitEvent =
  exit_symbol :: string
  exit_side :: side
  exit_entryPrice :: real
  exit_exitPrice :: real
  exit_quantity :: real
  exit_pnl :: real
  exit_pnlPct :: real
  exit_reason :: string
  exit_holdTime :: real
  exit_timestamp :: int

datatype log_event =
    Logger level string
  | TradeEnter EnterEvent
  | TradeExit ExitEvent

text \<open>Prefix the lines already emitted to the result of a call.\<close>

definition withLog :: "log_event list \<Rightarrow> 'a \<times> log_event list \<Rightarrow> 'a \<times> log_event list" where
  "withLog l r = (fst r, l @ snd r)"

section \<open>Risk manager (risk-manager.ts)\<close>

record PositionInfo =
  info_symbol :: string
  info_entryPrice :: real
  info_quantity :: real
  info_entryTime :: int

record RiskState =
  risk_config :: Config
  dailyPnL :: real
  currentBalance :: real
  risk_positions :: "string \<rightharpoonup> PositionInfo"
  dailyResetTime :: int
  tradesToday :: int
  lossesToday :: int
  lastLossTime :: "int option"

definition getNextResetTime :: "int \<Rightarrow> int \<Rightarrow> int" where
  "getNextResetTime tz fromTime = nextLocalMidnight tz fromTime"

definition createRiskState :: "int \<Rightarrow> Config \<Rightarrow> int \<Rightarrow> RiskState" where
  "createRiskState tz cfg startTime =
     \<lparr>risk_config = cfg,
      dailyPnL = 0,
      currentBalance = orElse (initial_capital cfg) 10000,
      risk_positions = Map.empty,
      dailyResetTime = getNextResetTime tz startTime,
      tradesToday = 0,
      lossesToday = 0,
      lastLossTime = None\<rparr>"

text \<open>
  \<open>canOpenPosition rnd state currentTime\<close>; \<open>rnd\<close> is the value of \<^verbatim>\<open>Math.random()\<close> drawn in
  the cooldown branch. \<^verbatim>\<open>if (state.lastLossTime)\<close> is a truthiness test of a
  \<^verbatim>\<open>number | null\<close>: \<^verbatim>\<open>null\<close> and \<^verbatim>\<open>0\<close> both skip the cooldown check.
\<close>

definition canOpenPosition :: "real \<Rightarrow> RiskState \<Rightarrow> int \<Rightarrow> bool \<times> log_event list" where
  "canOpenPosition rnd state currentTime =
     (if int (card (dom (risk_positions state))) \<ge> max_positions (risk_config state)
      then (False, [Logger Info ''Cannot open position: max positions reached''])
      else if tradesToday state \<ge> max_trades_per_day (risk_config state)
      then (False, [Logger Info ''Cannot open position: max daily trades reached''])
      else if lossesToday state \<ge> max_losses_per_day (risk_config state)
      then (False, [Logger Info ''Cannot open position: max daily losses reached''])
      else if (case lastLossTime state of
                 None \<Rightarrow> False
               | Some l \<Rightarrow> l \<noteq> 0 \<and>
                   real_of_int (currentTime - l) / 60000 < cooldown_minutes (risk_config state))
      then (False, if rnd < 0.001 then [Logger Info ''Cannot open position: in cooldown''] else [])
      else if dailyPnL state \<le> - max_daily_loss (risk_config state)
      then (False, [Logger Warn ''Cannot open position: daily loss limit reached''])
      else (True, []))"

definition recordPosition ::
  "RiskState \<Rightarrow> string \<Rightarrow> real \<Rightarrow> real \<Rightarrow> int \<Rightarrow> RiskState \<times> log_event list" where
  "recordPosition state symbol entryPrice quantity currentTime =
     (state\<lparr>risk_positions := (risk_positions state)(symbol \<mapsto>
         \<lparr>info_symbol = symbol, info_entryPrice = entryPrice, info_quantity = quantity,
          info_entryTime = currentTime\<rparr>)\<rparr>,
      [Logger Debug ''Position recorded''])"

definition closePosition ::
  "RiskState \<Rightarrow> string \<Rightarrow> real \<Rightarrow> int \<Rightarrow> RiskState \<times> log_event list" where
  "closePosition state symbol pnl currentTime =
     (let newPositions = (risk_positions state)(symbol := None);
          newDailyPnL = dailyPnL state + pnl;
          newBalance = currentBalance state + pnl;
          isLoss = pnl < 0
      in (state\<lparr>risk_positions := newPositions,
                dailyPnL := newDailyPnL,
                currentBalance := newBalance,
                tradesToday := tradesToday state + 1,
                lossesToday := (if isLoss then lossesToday state + 1 else lossesToday state),
                lastLossTime := (if isLoss then Some currentTime else lastLossTime state)\<rparr>,
          [Logger Info ''Position closed''] @
          (if newDailyPnL \<le> - max_daily_loss (risk_config state)
           then [Logger Error ''DAILY LOSS LIMIT REACHED'',
                 Logger Error ''No new positions will be opened today'']
           else [])))"

text \<open>\<open>resetDailyPnL tz now state\<close>: \<open>now\<close> is the reading of \<^verbatim>\<open>Date.now()\<close> that
  \<^verbatim>\<open>getNextResetTime()\<close> takes by default.\<close>

definition resetDailyPnL :: "int \<Rightarrow> int \<Rightarrow> RiskState \<Rightarrow> RiskState \<times> log_event list" where
  "resetDailyPnL tz now state =
     (state\<lparr>dailyPnL := 0,
            dailyResetTime := getNextResetTime tz now,
            tradesToday := 0,
            lossesToday := 0,
            lastLossTime := None\<rparr>,
      [Logger Info ''Daily P&L reset''])"

definition checkAndResetIfNeeded :: "int \<Rightarrow> int \<Rightarrow> RiskState \<Rightarrow> RiskState \<times> log_event list" where
  "checkAndResetIfNeeded tz now state =
     (if now \<ge> dailyResetTime state then resetDailyPnL tz now state else (state, []))"

definition checkDailyReset :: "int \<Rightarrow> RiskState \<Rightarrow> int \<Rightarrow> RiskState \<times> log_event list" where
  "checkDailyReset tz state currentTime =
     (if currentTime < dailyResetTime state then (state, [])
      else (state\<lparr>dailyPnL := 0,
                  tradesToday := 0,
                  lossesToday := 0,
                  dailyResetTime := nextLocalMidnight tz currentTime\<rparr>,
            [Logger Info ''Doing Daily Risk Reset'']))"

section \<open>Indicators (utils/indicators.ts)\<close>

text \<open>
  The true range of a sample against its predecessor. \<^verbatim>\<open>(current as any).high || current.price\<close>
  falls back to the price for a high of \<open>0\<close>; \<^verbatim>\<open>(prev as any).close\<close> is a field no
  \<^verbatim>\<open>VWAPData\<close> has, so the previous close is always \<^verbatim>\<open>prev.price\<close>.
\<close>

definition trueRange :: "VWAPData \<Rightarrow> VWAPData \<Rightarrow> real" where
  "trueRange prev current =
     (let high' = (if high current = 0 then price current else high current);
          low' = (if low current = 0 then price current else low current);
          prevClose = price prev
      in max (max (high' - low') \<bar>high' - prevClose\<bar>) \<bar>low' - prevClose\<bar>)"

text \<open>The loop \<^verbatim>\<open>for (i = 1; i < relevantData.length; i++) trSum += tr\<close>, with its accumulator.\<close>

fun trLoop :: "real \<Rightarrow> VWAPData list \<Rightarrow> real" where
  "trLoop trSum (prev # current # rest) = trLoop (trSum + trueRange prev current) (current # rest)"
| "trLoop trSum _ = trSum"

definition calculateATR :: "VWAPData list \<Rightarrow> nat \<Rightarrow> real option" where
  "calculateATR data period' =
     (if length data < period' + 1 then None
      else (let relevantData = slice_last (period' + 1) data
            in Some (trLoop 0 relevantData / real period')))"

definition calculateVWAPSlope :: "real \<Rightarrow> real list \<Rightarrow> nat \<Rightarrow> real" where
  "calculateVWAPSlope currentVWAP historicalVWAP lookback =
     (if length historicalVWAP < lookback then 0
      else currentVWAP - historicalVWAP ! (length historicalVWAP - lookback))"

text \<open>The loop of \<open>isChoppy\<close> over the samples after the first: \<open>wasAbove\<close>, \<open>crosses\<close>.\<close>

fun crossLoop :: "bool \<Rightarrow> nat \<Rightarrow> (real \<times> real) list \<Rightarrow> nat" where
  "crossLoop wasAbove crosses [] = crosses"
| "crossLoop wasAbove crosses ((p, v) # rest) =
     (let isAbove = p > v
      in if isAbove \<noteq> wasAbove then crossLoop isAbove (crosses + 1) rest
         else crossLoop wasAbove crosses rest)"

definition isChoppy :: "real list \<Rightarrow> real list \<Rightarrow> nat \<Rightarrow> real \<Rightarrow> bool" where
  "isChoppy prices vwaps period' threshold =
     (if length prices < period' \<or> length vwaps < period' then False
      else (case take period' (zip (slice_last period' prices) (slice_last period' vwaps)) of
              [] \<Rightarrow> real 0 \<ge> threshold
            | (p0, v0) # rest \<Rightarrow> real (crossLoop (p0 > v0) 0 rest) \<ge> threshold))"

text \<open>
  \<open>calculateRSI\<close>: the changes \<^verbatim>\<open>prices[i] - prices[i - 1]\<close> in order; the first loop sums
  gains and losses over the first \<open>period\<close> changes, the second smooths over the rest.
\<close>

fun changes :: "real list \<Rightarrow> real list" where
  "changes (a # b # rest) = (b - a) # changes (b # rest)"
| "changes _ = []"

fun seedLoop :: "real \<Rightarrow> real \<Rightarrow> real list \<Rightarrow> real \<times> real" where
  "seedLoop gains losses [] = (gains, losses)"
| "seedLoop gains losses (change # rest) =
     (if change > 0 then seedLoop (gains + change) losses rest
      else seedLoop gains (losses - change) rest)"

fun smoothLoop :: "nat \<Rightarrow> real \<Rightarrow> real \<Rightarrow> real list \<Rightarrow> real \<times> real" where
  "smoothLoop period' avgGain avgLoss [] = (avgGain, avgLoss)"
| "smoothLoop period' avgGain avgLoss (change # rest) =
     (let gain = (if change > 0 then change else 0);
          loss = (if change < 0 then - change else 0)
      in smoothLoop period'
           ((avgGain * (real period' - 1) + gain) / real period')
           ((avgLoss * (real period' - 1) + loss) / real period') rest)"

definition calculateRSI :: "real list \<Rightarrow> nat \<Rightarrow> real option" where
  "calculateRSI prices period' =
     (if length prices < period' + 1 then None
      else (let (gains, losses) = seedLoop 0 0 (take period' (changes prices));
                (avgGain, avgLoss) =
                   smoothLoop period' (gains / real period') (losses / real period')
                     (drop period' (changes prices))
            in if avgLoss = 0 then Some 100
               else Some (100 - 100 / (1 + avgGain / avgLoss))))"

section \<open>Strategy (strategy.ts)\<close>

record Position =
  symbol :: string
  side :: side
  entryPrice :: real
  quantity :: real
  entryTime :: int
  stopLoss :: real
  takeProfit :: real
  trailingStop :: "real option"

datatype signal_type = potential_long | potential_short

record PendingSignal =
  signal :: signal_type
  triggerCandleTime :: int
  triggerPrice :: real

record StrategyState =
  config :: Config
  positions :: "string \<rightharpoonup> Position"
  pendingSignals :: "string \<rightharpoonup> PendingSignal"

definition createStrategyState :: "Config \<Rightarrow> StrategyState" where
  "createStrategyState cfg = \<lparr>config = cfg, positions = Map.empty, pendingSignals = Map.empty\<rparr>"

definition calculatePnL :: "Position \<Rightarrow> real \<Rightarrow> real" where
  "calculatePnL position currentPrice =
     (if side position = long then (currentPrice - entryPrice position) * quantity position
      else (entryPrice position - currentPrice) * quantity position)"

text \<open>
  \<open>enterLongPosition\<close> and \<open>enterShortPosition\<close>. The quantity is the configured size, or under
  \<^verbatim>\<open>risk_pct\<close> sizing with a truthy \<^verbatim>\<open>max_risk_pct\<close> and a positive risk per share the floor
  of risk amount over risk per share; a quantity below \<open>1\<close> becomes \<open>1\<close>.
\<close>

definition enterLongPosition ::
  "StrategyState \<Rightarrow> RiskState \<Rightarrow> string \<Rightarrow> real \<Rightarrow> int
     \<Rightarrow> (StrategyState \<times> RiskState) \<times> log_event list" where
  "enterLongPosition strategyState riskState symbol' entryPrice' currentTime =
     (let cfg = config strategyState;
          quantity0 = position_size cfg;
          quantity1 =
            (if sizing_type cfg = Some risk_pct \<and> orElse (max_risk_pct cfg) 0 \<noteq> 0
             then (let riskAmount = currentBalance riskState * orElse (max_risk_pct cfg) 0;
                       riskPerShare = entryPrice' * stop_loss_pct cfg
                   in if riskPerShare > 0 then of_int \<lfloor>riskAmount / riskPerShare\<rfloor>
                      else quantity0)
             else quantity0);
          quantity' = (if quantity1 < 1 then 1 else quantity1);
          stopLoss' = entryPrice' * (1 - stop_loss_pct cfg);
          takeProfit' = entryPrice' * (1 + take_profit_pct cfg);
          position = \<lparr>symbol = symbol', side = long, entryPrice = entryPrice',
                      quantity = quantity', entryTime = currentTime, stopLoss = stopLoss',
                      takeProfit = takeProfit',
                      trailingStop = (if trailing_stop cfg
                                      then Some (entryPrice' * (1 - trailing_stop_pct cfg))
                                      else None)\<rparr>;
          newPositions = (positions strategyState)(symbol' \<mapsto> position);
          (newRiskState, riskLog) = recordPosition riskState symbol' entryPrice' quantity' currentTime
      in ((strategyState\<lparr>positions := newPositions\<rparr>, newRiskState),
          [Logger Info ''LONG SIGNAL''] @ riskLog @
          [TradeEnter \<lparr>enter_side = long, enter_symbol = symbol', enter_price = entryPrice',
                       enter_quantity = quantity', enter_stopLoss = stopLoss',
                       enter_takeProfit = takeProfit', enter_timestamp = currentTime\<rparr>]))"

definition enterShortPosition ::
  "StrategyState \<Rightarrow> RiskState \<Rightarrow> string \<Rightarrow> real \<Rightarrow> int
     \<Rightarrow> (StrategyState \<times> RiskState) \<times> log_event list" where
  "enterShortPosition strategyState riskState symbol' entryPrice' currentTime =
     (let cfg = config strategyState;
          quantity0 = position_size cfg;
          quantity1 =
            (if sizing_type cfg = Some risk_pct \<and> orElse (max_risk_pct cfg) 0 \<noteq> 0
             then (let riskAmount = currentBalance riskState * orElse (max_risk_pct cfg) 0;
                       riskPerShare = entryPrice' * stop_loss_pct cfg
                   in if riskPerShare > 0 then of_int \<lfloor>riskAmount / riskPerShare\<rfloor>
                      else quantity0)
             else quantity0);
          quantity' = (if quantity1 < 1 then 1 else quantity1);
          stopLoss' = entryPrice' * (1 + stop_loss_pct cfg);
          takeProfit' = entryPrice' * (1 - take_profit_pct cfg);
          position = \<lparr>symbol = symbol', side = short, entryPrice = entryPrice',
                      quantity = quantity', entryTime = currentTime, stopLoss = stopLoss',
                      takeProfit = takeProfit',
                      trailingStop = (if trailing_stop cfg
                                      then Some (entryPrice' * (1 + trailing_stop_pct cfg))
                                      else None)\<rparr>;
          newPositions = (positions strategyState)(symbol' \<mapsto> position);
          (newRiskState, riskLog) =
             recordPosition riskState symbol' entryPrice' (- quantity') currentTime
      in ((strategyState\<lparr>positions := newPositions\<rparr>, newRiskState),
          [Logger Info ''SHORT SIGNAL''] @ riskLog @
          [TradeEnter \<lparr>enter_side = short, enter_symbol = symbol', enter_price = entryPrice',
                       enter_quantity = quantity', enter_stopLoss = stopLoss',
                       enter_takeProfit = takeProfit', enter_timestamp = currentTime\<rparr>]))"

text \<open>
  \<open>exitPosition\<close>. The exit reason reaches only the log. \<open>pnlPct\<close> divides by
  \<open>entryPrice * quantity\<close>, which the source does not guard (it is \<open>0\<close> here when that
  product is \<open>0\<close>); it is used for the log line alone.
\<close>

definition exitPosition ::
  "StrategyState \<Rightarrow> RiskState \<Rightarrow> string \<Rightarrow> real \<Rightarrow> string \<Rightarrow> real \<Rightarrow> int
     \<Rightarrow> (StrategyState \<times> RiskState) \<times> log_event list" where
  "exitPosition strategyState riskState symbol' exitPrice reason pnl currentTime =
     (case positions strategyState symbol' of
        None \<Rightarrow> ((strategyState, riskState), [])
      | Some position \<Rightarrow>
          (let pnlPct = pnl / (entryPrice position * quantity position) * 100;
               holdTime = real_of_int (currentTime - entryTime position) / 1000;
               newPositions = (positions strategyState)(symbol' := None);
               (newRiskState, riskLog) = closePosition riskState symbol' pnl currentTime
           in ((strategyState\<lparr>positions := newPositions\<rparr>, newRiskState),
               [Logger Info ''EXIT''] @ riskLog @
               [TradeExit \<lparr>exit_symbol = symbol', exit_side = side position,
                           exit_entryPrice = entryPrice position, exit_exitPrice = exitPrice,
                           exit_quantity = quantity position, exit_pnl = pnl,
                           exit_pnlPct = pnlPct, exit_reason = reason,
                           exit_holdTime = holdTime, exit_timestamp = currentTime\<rparr>])))"

text \<open>
  \<open>managePosition\<close>. \<^verbatim>\<open>max_hold_seconds && ...\<close> and \<^verbatim>\<open>trailing_stop && position.trailingStop\<close>
  are truthiness tests: an absent or zero value switches the check off. The trailing level
  moves only in the position's favour; the exit is taken from the state as it was passed in,
  the moved level is stored only when the position stays open.
\<close>

definition managePosition ::
  "StrategyState \<Rightarrow> RiskState \<Rightarrow> string \<Rightarrow> real \<Rightarrow> real \<Rightarrow> Position \<Rightarrow> int
     \<Rightarrow> (StrategyState \<times> RiskState) \<times> log_event list" where
  "managePosition strategyState riskState symbol' currentPrice vwap' position currentTime =
     (let cfg = config strategyState;
          pnl = calculatePnL position currentPrice;
          holdTime = real_of_int (currentTime - entryTime position) / 1000
      in if orElse (max_hold_seconds cfg) 0 \<noteq> 0 \<and> holdTime \<ge> orElse (max_hold_seconds cfg) 0
         then exitPosition strategyState riskState symbol' currentPrice ''TIME_STOP'' pnl currentTime
         else if side position = long \<and> currentPrice \<le> stopLoss position
         then exitPosition strategyState riskState symbol' currentPrice ''STOP_LOSS'' pnl currentTime
         else if side position = short \<and> currentPrice \<ge> stopLoss position
         then exitPosition strategyState riskState symbol' currentPrice ''STOP_LOSS'' pnl currentTime
         else if side position = long \<and> currentPrice \<ge> takeProfit position
         then exitPosition strategyState riskState symbol' currentPrice ''TAKE_PROFIT'' pnl currentTime
         else if side position = short \<and> currentPrice \<le> takeProfit position
         then exitPosition strategyState riskState symbol' currentPrice ''TAKE_PROFIT'' pnl currentTime
         else if trailing_stop cfg \<and> orElse (trailingStop position) 0 \<noteq> 0
         then (let trailingPct = trailing_stop_pct cfg;
                   oldTrailing = orElse (trailingStop position) 0;
                   newTrailing = (if side position = long then currentPrice * (1 - trailingPct)
                                  else currentPrice * (1 + trailingPct));
                   moved = (if side position = long then newTrailing > oldTrailing
                            else newTrailing < oldTrailing);
                   updatedPosition = (if moved then position\<lparr>trailingStop := Some newTrailing\<rparr>
                                      else position);
                   level = (if moved then newTrailing else oldTrailing);
                   moveLog = (if moved then [Logger Debug ''Updated trailing stop''] else [])
               in if (if side position = long then currentPrice \<le> level else currentPrice \<ge> level)
                  then withLog moveLog
                         (exitPosition strategyState riskState symbol' currentPrice
                            ''TRAILING_STOP'' pnl currentTime)
                  else (((if moved
                          then strategyState\<lparr>positions :=
                                 (positions strategyState)(symbol' \<mapsto> updatedPosition)\<rparr>
                          else strategyState), riskState),
                        moveLog @ [Logger Debug ''Position status'']))
         else ((strategyState, riskState), [Logger Debug ''Position status'']))"

text \<open>The values of \<^verbatim>\<open>Math.random()\<close> that one call of \<open>checkEntrySignals\<close> may draw, by
  the log line each one guards.\<close>

record Draws =
  r_cooldown :: real
  r_eval :: real
  r_volume :: real
  r_atr :: real

text \<open>
  \<open>checkEntrySignals\<close> in three parts, in the order of the source: the gates (risk check,
  session window, volume, ATR and chop filters), then part A of the source (a pending signal
  is confirmed or dropped) and part B (a new signal). The source's \<^verbatim>\<open>atr / currentPrice\<close> and
  \<^verbatim>\<open>(currentPrice - vwap) / vwap\<close> are not guarded against a zero divisor (the quotient is
  \<open>0\<close> here).
\<close>

definition checkPending ::
  "StrategyState \<Rightarrow> RiskState \<Rightarrow> string \<Rightarrow> real \<Rightarrow> real \<Rightarrow> PendingSignal \<Rightarrow> int
     \<Rightarrow> (StrategyState \<times> RiskState) \<times> log_event list" where
  "checkPending strategyState riskState symbol' currentPrice vwap' pending currentTime =
     (let newPending = (pendingSignals strategyState)(symbol' := None)
      in case signal pending of
           potential_long \<Rightarrow>
             if currentPrice < vwap'
             then ((strategyState\<lparr>pendingSignals := newPending\<rparr>, riskState),
                   [Logger Debug ''Long confirmation failed (closed below VWAP)''])
             else enterLongPosition (strategyState\<lparr>pendingSignals := newPending\<rparr>) riskState
                    symbol' currentPrice currentTime
         | potential_short \<Rightarrow>
             if currentPrice > vwap'
             then ((strategyState\<lparr>pendingSignals := newPending\<rparr>, riskState),
                   [Logger Debug ''Short confirmation failed (closed above VWAP)''])
             else enterShortPosition (strategyState\<lparr>pendingSignals := newPending\<rparr>) riskState
                    symbol' currentPrice currentTime)"

definition checkNewSignals ::
  "StrategyState \<Rightarrow> RiskState \<Rightarrow> string \<Rightarrow> real \<Rightarrow> real \<Rightarrow> real \<Rightarrow> int
     \<Rightarrow> (StrategyState \<times> RiskState) \<times> log_event list" where
  "checkNewSignals strategyState riskState symbol' currentPrice vwap' rsi currentTime =
     (let cfg = config strategyState;
          deviation = (currentPrice - vwap') / vwap';
          entryThreshold = entry_threshold cfg;
          rsiOversold = orElse (rsi_oversold cfg) 40;
          rsiOverbought = orElse (rsi_overbought cfg) 60;
          longLog = (if deviation < - entryThreshold then [Logger Debug ''LONG setup''] else []);
          shortLog = (if deviation > entryThreshold then [Logger Debug ''SHORT setup''] else [])
      in if deviation < - entryThreshold \<and> rsi < rsiOversold
         then (if require_confirmation cfg = Some False
               then withLog longLog
                      (enterLongPosition strategyState riskState symbol' currentPrice currentTime)
               else ((strategyState\<lparr>pendingSignals := (pendingSignals strategyState)(symbol' \<mapsto>
                         \<lparr>signal = potential_long, triggerCandleTime = currentTime,
                          triggerPrice = currentPrice\<rparr>)\<rparr>, riskState),
                     longLog @ [Logger Info ''potential LONG reclaim detected'']))
         else if deviation > entryThreshold \<and> rsi > rsiOverbought
         then (if require_confirmation cfg = Some False
               then withLog (longLog @ shortLog)
                      (enterShortPosition strategyState riskState symbol' currentPrice currentTime)
               else ((strategyState\<lparr>pendingSignals := (pendingSignals strategyState)(symbol' \<mapsto>
                         \<lparr>signal = potential_short, triggerCandleTime = currentTime,
                          triggerPrice = currentPrice\<rparr>)\<rparr>, riskState),
                     longLog @ shortLog @ [Logger Info ''potential SHORT rejection detected'']))
         else ((strategyState, riskState), longLog @ shortLog))"

definition checkEntrySignals ::
  "Draws \<Rightarrow> StrategyState \<Rightarrow> RiskState \<Rightarrow> string \<Rightarrow> real \<Rightarrow> real \<Rightarrow> real \<Rightarrow> real \<Rightarrow> real
     \<Rightarrow> VWAPState \<Rightarrow> int \<Rightarrow> (StrategyState \<times> RiskState) \<times> log_event list" where
  "checkEntrySignals rnd strategyState riskState symbol' currentPrice vwap' vwapSlope atr rsi
       vwapState currentTime =
     (let cfg = config strategyState;
          unchanged = (strategyState, riskState);
          (canOpen, riskLog) = canOpenPosition (r_cooldown rnd) riskState currentTime
      in if \<not> canOpen then (unchanged, riskLog)
         else
     (let evalLog = riskLog @ (if r_eval rnd < 0.01 then [Logger Info ''Eval''] else []);
          (startH, startM) = start_time cfg;
          (endH, endM) = end_time cfg;
          utcStartH = startH + 5;
          utcEndH = endH + 5;
          currentH = getUTCHours currentTime;
          currentM = getUTCMinutes currentTime
      in if currentH < utcStartH \<or> (currentH = utcStartH \<and> currentM < startM)
         then (unchanged, evalLog)
         else if currentH > utcEndH \<or> (currentH = utcEndH \<and> currentM \<ge> endM)
         then (unchanged, evalLog)
         else
     (let volumes = map volume (dataPoints vwapState);
          recentVolumes = slice_last 20 volumes;
          avgVol = sum_list recentVolumes / real (length recentVolumes);
          currentVol = last volumes
      in if length volumes > 20 \<and> currentVol < avgVol * min_volume_mult cfg
         then (unchanged,
               evalLog @ (if r_volume rnd < 0.001 then [Logger Debug ''Low volume''] else []))
         else
     (let minAtrPct = orElse (min_atr_pct cfg) 0
      in if minAtrPct > 0 \<and> atr / currentPrice < minAtrPct
         then (unchanged,
               evalLog @ (if r_atr rnd < 0.001 then [Logger Debug ''Low Volatility''] else []))
         else
     (let prices = map price (dataPoints vwapState);
          vwaps = map (\<lambda>d. orElse (vwap d) (price d)) (dataPoints vwapState)
      in if isChoppy prices vwaps 20 (chop_threshold cfg)
         then (unchanged, evalLog @ [Logger Debug ''Choppy market detected''])
         else (case pendingSignals strategyState symbol' of
                 Some pending \<Rightarrow>
                   withLog evalLog
                     (checkPending strategyState riskState symbol' currentPrice vwap' pending
                        currentTime)
               | None \<Rightarrow>
                   withLog evalLog
                     (checkNewSignals strategyState riskState symbol' currentPrice vwap' rsi
                        currentTime)))))))"

text \<open>
  \<open>evaluateStrategy\<close>; the optional \<^verbatim>\<open>vwapState\<close> is an option. \<open>calculateVWAPSlope\<close> and
  \<open>calculateATR\<close> are called with their default lookback \<open>5\<close> and period \<open>14\<close>, whatever the
  configuration says; \<^verbatim>\<open>rsi_period || 14\<close> replaces an absent or zero period.
\<close>

definition evaluateStrategy ::
  "Draws \<Rightarrow> StrategyState \<Rightarrow> RiskState \<Rightarrow> string \<Rightarrow> real \<Rightarrow> real \<Rightarrow> VWAPState option \<Rightarrow> int
     \<Rightarrow> (StrategyState \<times> RiskState) \<times> log_event list" where
  "evaluateStrategy rnd strategyState riskState symbol' currentPrice vwap' vwapStateOpt currentTime =
     (case vwapStateOpt of
        None \<Rightarrow> ((strategyState, riskState), [])
      | Some vwapState \<Rightarrow>
          (let vwapSlope = calculateVWAPSlope vwap'
                 (map (\<lambda>d. orElse (vwap d) (price d)) (dataPoints vwapState)) 5;
               atr = calculateATR (dataPoints vwapState) 14;
               prices = map price (dataPoints vwapState);
               rsiPeriod = (case rsi_period (config strategyState) of
                              None \<Rightarrow> 14 | Some n \<Rightarrow> if n = 0 then 14 else n);
               rsi = calculateRSI prices rsiPeriod
           in case (rsi, atr) of
                (Some rsi', Some atr') \<Rightarrow>
                  (let hour = getUTCHours currentTime;
                       minute = getUTCMinutes currentTime
                   in case positions strategyState symbol' of
                        Some position \<Rightarrow>
                          if hour \<ge> 20 \<and> minute \<ge> 55
                          then exitPosition strategyState riskState symbol' currentPrice
                                 ''EOD_FORCE_EXIT'' (calculatePnL position currentPrice) currentTime
                          else managePosition strategyState riskState symbol' currentPrice vwap'
                                 position currentTime
                      | None \<Rightarrow>
                          checkEntrySignals rnd strategyState riskState symbol' currentPrice vwap'
                            vwapSlope atr' rsi' vwapState currentTime)
              | _ \<Rightarrow> ((strategyState, riskState), [])))"

section \<open>Replay driver (backtest.ts)\<close>

text \<open>
  A bar of the input with its \<^verbatim>\<open>Timestamp\<close> already parsed
  (\<^verbatim>\<open>new Date(bar.Timestamp).getTime()\<close>). A trade record keeps its entry and exit times as
  times; the source renders them with \<^verbatim>\<open>toISOString()\<close>.
\<close>

record Bar =
  Timestamp :: int
  ClosePrice :: real
  Volume :: real
  HighPrice :: real
  LowPrice :: real

record TradeRecord =
  trade_symbol :: string
  trade_side :: side
  trade_entryPrice :: real
  trade_exitPrice :: real
  trade_entryTime :: int
  trade_exitTime :: int
  trade_quantity :: real
  trade_pnl :: real
  trade_pnlPct :: real
  trade_reason :: string

record BacktestResult =
  totalTrades :: nat
  winningTrades :: nat
  losingTrades :: nat
  totalPnL :: real
  winRate :: real
  maxDrawdown :: real
  trades :: "TradeRecord list"

text \<open>
  What a run reads from outside its arguments: \<open>env_start\<close> is the reading of
  \<^verbatim>\<open>Date.now()\<close> taken for an empty bar list, \<open>env_clock i\<close> the reading taken by
  \<open>updateVWAP\<close> at bar \<open>i\<close>, \<open>env_random i\<close> the random values drawn at bar \<open>i\<close>.
\<close>

record Env =
  env_start :: int
  env_clock :: "nat \<Rightarrow> int"
  env_random :: "nat \<Rightarrow> Draws"

text \<open>The variables of the loop of \<open>runBacktest\<close>, and the log written so far.\<close>

record LoopState =
  loop_vwapState :: VWAPState
  loop_strategyState :: StrategyState
  loop_riskState :: RiskState
  loop_trades :: "TradeRecord list"
  loop_peakPnL :: real
  loop_maxDrawdown :: real
  loop_log :: "log_event list"

text \<open>One iteration of the loop: bar \<open>i\<close>, with the bar before it when \<open>i > 0\<close>.\<close>

definition backtestStep ::
  "Env \<Rightarrow> int \<Rightarrow> string \<Rightarrow> Config \<Rightarrow> nat \<Rightarrow> Bar option \<Rightarrow> Bar \<Rightarrow> LoopState \<Rightarrow> LoopState" where
  "backtestStep env tz symbol' cfg i prevBar bar st =
     (let timestamp' = Timestamp bar;
          (riskState, resetLog) = checkDailyReset tz (loop_riskState st) timestamp';
          price' = ClosePrice bar;
          volume' = Volume bar;
          vwapState0 =
            (case prevBar of
               None \<Rightarrow> loop_vwapState st
             | Some prev \<Rightarrow>
                 if getDate tz (Timestamp bar) \<noteq> getDate tz (Timestamp prev) \<and> vwap_period cfg = 0
                 then createVWAPState 0
                 else loop_vwapState st);
          vwapState = updateVWAP (env_clock env i) vwapState0 price' volume'
                        (Some (HighPrice bar)) (Some (LowPrice bar))
      in case getVWAP vwapState of
           None \<Rightarrow>
             st\<lparr>loop_vwapState := vwapState, loop_riskState := riskState,
                loop_log := loop_log st @ resetLog\<rparr>
         | Some currentVWAP \<Rightarrow>
             (let prevPositions = positions (loop_strategyState st);
                  prevPnL = dailyPnL riskState;
                  ((newStrategyState, newRiskState), evalLog) =
                     evaluateStrategy (env_random env i) (loop_strategyState st) riskState symbol'
                       price' currentVWAP (Some vwapState) timestamp';
                  hadPosition = prevPositions symbol';
                  hasPosition = positions newStrategyState symbol';
                  newTrades =
                    (case hadPosition of
                       None \<Rightarrow> loop_trades st
                     | Some had \<Rightarrow>
                         if hasPosition = None
                         then (let pnlChange = dailyPnL newRiskState - prevPnL
                               in loop_trades st @
                                  [\<lparr>trade_symbol = symbol', trade_side = side had,
                                    trade_entryPrice = entryPrice had, trade_exitPrice = price',
                                    trade_entryTime = entryTime had, trade_exitTime = timestamp',
                                    trade_quantity = quantity had, trade_pnl = pnlChange,
                                    trade_pnlPct =
                                      pnlChange / (entryPrice had * quantity had) * 100,
                                    trade_reason = ''Backtest Exit''\<rparr>])
                         else loop_trades st);
                  peakPnL = (if dailyPnL newRiskState > loop_peakPnL st
                             then dailyPnL newRiskState else loop_peakPnL st);
                  currentDrawdown = peakPnL - dailyPnL newRiskState;
                  maxDrawdown' = (if currentDrawdown > loop_maxDrawdown st
                                  then currentDrawdown else loop_maxDrawdown st)
              in \<lparr>loop_vwapState = vwapState, loop_strategyState = newStrategyState,
                  loop_riskState = newRiskState, loop_trades = newTrades,
                  loop_peakPnL = peakPnL, loop_maxDrawdown = maxDrawdown',
                  loop_log = loop_log st @ resetLog @ evalLog\<rparr>))"

fun backtestLoop ::
  "Env \<Rightarrow> int \<Rightarrow> string \<Rightarrow> Config \<Rightarrow> nat \<Rightarrow> Bar option \<Rightarrow> Bar list \<Rightarrow> LoopState \<Rightarrow> LoopState" where
  "backtestLoop env tz symbol' cfg i prevBar [] st = st"
| "backtestLoop env tz symbol' cfg i prevBar (bar # bars) st =
     backtestLoop env tz symbol' cfg (Suc i) (Some bar) bars
       (backtestStep env tz symbol' cfg i prevBar bar st)"

text \<open>The state before the first bar, and the state after the last one.\<close>

definition backtestInit :: "Env \<Rightarrow> int \<Rightarrow> Bar list \<Rightarrow> Config \<Rightarrow> LoopState" where
  "backtestInit env tz bars cfg =
     (let startTime = (case bars of [] \<Rightarrow> env_start env | bar # _ \<Rightarrow> Timestamp bar)
      in \<lparr>loop_vwapState = createVWAPState (vwap_period cfg),
          loop_strategyState = createStrategyState cfg,
          loop_riskState = createRiskState tz cfg startTime,
          loop_trades = [],
          loop_peakPnL = 0,
          loop_maxDrawdown = 0,
          loop_log = [Logger Info ''Starting backtest'']\<rparr>)"

definition backtestFinal :: "Env \<Rightarrow> int \<Rightarrow> string \<Rightarrow> Bar list \<Rightarrow> Config \<Rightarrow> LoopState" where
  "backtestFinal env tz symbol' bars cfg =
     backtestLoop env tz symbol' cfg 0 None bars (backtestInit env tz bars cfg)"

definition runBacktest ::
  "Env \<Rightarrow> int \<Rightarrow> string \<Rightarrow> Bar list \<Rightarrow> Config \<Rightarrow> BacktestResult \<times> log_event list" where
  "runBacktest env tz symbol' bars cfg =
     (let final = backtestFinal env tz symbol' bars cfg;
          trades' = loop_trades final;
          winningTrades' = length (filter (\<lambda>t. trade_pnl t > 0) trades');
          losingTrades' = length (filter (\<lambda>t. trade_pnl t \<le> 0) trades');
          totalPnL' = dailyPnL (loop_riskState final);
          winRate' = (if length trades' > 0
                      then real winningTrades' / real (length trades') * 100 else 0)
      in (\<lparr>totalTrades = length trades', winningTrades = winningTrades',
           losingTrades = losingTrades', totalPnL = totalPnL', winRate = winRate',
           maxDrawdown = loop_maxDrawdown final, trades = trades'\<rparr>,
          loop_log final))"

subsection \<open>Sample inputs\<close>

text \<open>The three updates of the repository's rolling-window test (\<^verbatim>\<open>tests/pure.test.ts\<close>).\<close>

definition t1 :: Tick where
  "t1 = \<lparr>tick_now = 1, tick_price = 100, tick_volume = 10, tick_high = None, tick_low = None\<rparr>"

definition t2 :: Tick where
  "t2 = \<lparr>tick_now = 2, tick_price = 110, tick_volume = 10, tick_high = None, tick_low = None\<rparr>"

definition t3 :: Tick where
  "t3 = \<lparr>tick_now = 3, tick_price = 120, tick_volume = 10, tick_high = None, tick_low = None\<rparr>"



text \<open>
  A configuration with the values of the repository's test and the defaults of
  \<^verbatim>\<open>loadConfig\<close> (three trades and two losses per day, five minutes of cooldown), a session
  from 09:30 to 16:00, fixed sizing and no confirmation candle; the risk state created from
  it at time \<open>0\<close> in a zone at UTC; and that state with one open position.
\<close>

definition cfg0 :: Config where
  "cfg0 = \<lparr>start_time = (9, 30), end_time = (16, 0), vwap_period = 0, entry_threshold = 0.02,
      require_confirmation = Some False, min_volume_mult = 1.2, chop_threshold = 3,
      rsi_period = None, rsi_oversold = None, rsi_overbought = None, min_atr_pct = None,
      position_size = 10, sizing_type = None, max_risk_pct = None, max_positions = 5,
      stop_loss_pct = 0.02, take_profit_pct = 0.05, max_daily_loss = 500,
      max_hold_seconds = None, trailing_stop = False, trailing_stop_pct = 0.01,
      max_trades_per_day = 3, max_losses_per_day = 2, cooldown_minutes = 5,
      initial_capital = None\<rparr>"

definition risk0 :: RiskState where
  "risk0 = createRiskState 0 cfg0 0"

definition risk1 :: RiskState where
  "risk1 = fst (recordPosition risk0 ''SPY'' 95 10 1000)"

section \<open>Notions used in the statements\<close>

text \<open>
  The quantity that \<open>enterLongPosition\<close> and \<open>enterShortPosition\<close> compute, and the positions
  they store.
\<close>

definition entryQuantity :: "Config \<Rightarrow> RiskState \<Rightarrow> real \<Rightarrow> real" where
  "entryQuantity cfg rs p =
     (let q = (if sizing_type cfg = Some risk_pct \<and> orElse (max_risk_pct cfg) 0 \<noteq> 0
                  \<and> p * stop_loss_pct cfg > 0
               then of_int \<lfloor>currentBalance rs * orElse (max_risk_pct cfg) 0 / (p * stop_loss_pct cfg)\<rfloor>
               else position_size cfg)
      in if q < 1 then 1 else q)"

definition longPosition :: "Config \<Rightarrow> RiskState \<Rightarrow> string \<Rightarrow> real \<Rightarrow> int \<Rightarrow> Position" where
  "longPosition cfg rs s p t =
     \<lparr>symbol = s, side = long, entryPrice = p, quantity = entryQuantity cfg rs p, entryTime = t,
      stopLoss = p * (1 - stop_loss_pct cfg), takeProfit = p * (1 + take_profit_pct cfg),
      trailingStop = (if trailing_stop cfg then Some (p * (1 - trailing_stop_pct cfg)) else None)\<rparr>"

definition shortPosition :: "Config \<Rightarrow> RiskState \<Rightarrow> string \<Rightarrow> real \<Rightarrow> int \<Rightarrow> Position" where
  "shortPosition cfg rs s p t =
     \<lparr>symbol = s, side = short, entryPrice = p, quantity = entryQuantity cfg rs p, entryTime = t,
      stopLoss = p * (1 + stop_loss_pct cfg), takeProfit = p * (1 - take_profit_pct cfg),
      trailingStop = (if trailing_stop cfg then Some (p * (1 + trailing_stop_pct cfg)) else None)\<rparr>"

text \<open>
  The shapes a transition of the strategy can have on the two position maps, for the symbol
  \<open>s\<close> it is called with: both keep their keys, both gain \<open>s\<close>, or both lose \<open>s\<close>.
\<close>

definition keeps :: "string \<Rightarrow> StrategyState \<Rightarrow> RiskState \<Rightarrow> StrategyState \<times> RiskState \<Rightarrow> bool" where
  "keeps s ss rs r \<longleftrightarrow>
     dom (positions (fst r)) = dom (positions ss) \<and> risk_positions (snd r) = risk_positions rs"

definition enters :: "string \<Rightarrow> StrategyState \<Rightarrow> RiskState \<Rightarrow> StrategyState \<times> RiskState \<Rightarrow> bool" where
  "enters s ss rs r \<longleftrightarrow>
     (\<exists>pos info. positions (fst r) = (positions ss)(s \<mapsto> pos)
        \<and> risk_positions (snd r) = (risk_positions rs)(s \<mapsto> info))"

definition exits :: "string \<Rightarrow> StrategyState \<Rightarrow> RiskState \<Rightarrow> StrategyState \<times> RiskState \<Rightarrow> bool" where
  "exits s ss rs r \<longleftrightarrow>
     positions ss s \<noteq> None \<and> positions (fst r) = (positions ss)(s := None)
       \<and> risk_positions (snd r) = (risk_positions rs)(s := None)"

definition flatStep :: "string \<Rightarrow> StrategyState \<Rightarrow> RiskState \<Rightarrow> StrategyState \<times> RiskState \<Rightarrow> bool" where
  "flatStep s ss rs r \<longleftrightarrow> keeps s ss rs r \<or> enters s ss rs r"

definition transition :: "string \<Rightarrow> StrategyState \<Rightarrow> RiskState \<Rightarrow> StrategyState \<times> RiskState \<Rightarrow> bool" where
  "transition s ss rs r \<longleftrightarrow>
     keeps s ss rs r \<or> (positions ss s = None \<and> enters s ss rs r) \<or> exits s ss rs r"

text \<open>
  The period \<open>evaluateStrategy\<close> passes to \<open>calculateRSI\<close> (\<^verbatim>\<open>rsi_period || 14\<close>), and
  the conjunction of the gates of \<open>checkEntrySignals\<close>, each the negation of the condition
  under which the source returns the state unchanged: risk check, session start, session end,
  volume filter, ATR filter, chop filter.
\<close>

definition rsiPeriodOf :: "Config \<Rightarrow> nat" where
  "rsiPeriodOf cfg = (case rsi_period cfg of None \<Rightarrow> 14 | Some n \<Rightarrow> if n = 0 then 14 else n)"

definition gatesOpen :: "Draws \<Rightarrow> StrategyState \<Rightarrow> RiskState \<Rightarrow> real \<Rightarrow> real \<Rightarrow> VWAPState \<Rightarrow> int \<Rightarrow> bool" where
  "gatesOpen rnd ss rs p atr vs t \<longleftrightarrow>
     fst (canOpenPosition (r_cooldown rnd) rs t)
     \<and> \<not> (getUTCHours t < fst (start_time (config ss)) + 5
            \<or> (getUTCHours t = fst (start_time (config ss)) + 5
                \<and> getUTCMinutes t < snd (start_time (config ss))))
     \<and> \<not> (getUTCHours t > fst (end_time (config ss)) + 5
            \<or> (getUTCHours t = fst (end_time (config ss)) + 5
                \<and> getUTCMinutes t \<ge> snd (end_time (config ss))))
     \<and> \<not> (length (dataPoints vs) > 20
            \<and> last (map volume (dataPoints vs))
                 < sum_list (slice_last 20 (map volume (dataPoints vs)))
                     / real (length (slice_last 20 (map volume (dataPoints vs))))
                     * min_volume_mult (config ss))
     \<and> \<not> (orElse (min_atr_pct (config ss)) 0 > 0
            \<and> atr / p < orElse (min_atr_pct (config ss)) 0)
     \<and> \<not> isChoppy (map price (dataPoints vs))
            (map (\<lambda>d. orElse (vwap d) (price d)) (dataPoints vs)) 20
            (chop_threshold (config ss))"

subsection \<open>Sample states\<close>

text \<open>
  Samples for the strategy: random draws that log nothing; fifteen updates of the VWAP
  calculator (fourteen at price 100, one at 95, volume 1000 each) from \<open>createVWAPState 0\<close>;
  the configuration with the confirmation candle required; a flat strategy state that holds
  a pending long signal for SPY; a strategy state with an open long position in SPY; and a
  risk state whose trade count has reached the daily cap.
\<close>

definition draws0 :: Draws where
  "draws0 = \<lparr>r_cooldown = 1/2, r_eval = 1/2, r_volume = 1/2, r_atr = 1/2\<rparr>"

definition tick100 :: Tick where
  "tick100 = \<lparr>tick_now = 0, tick_price = 100, tick_volume = 1000, tick_high = Some 100,
               tick_low = Some 100\<rparr>"

definition tick95 :: Tick where
  "tick95 = \<lparr>tick_now = 0, tick_price = 95, tick_volume = 1000, tick_high = Some 95,
              tick_low = Some 95\<rparr>"

definition vs15 :: VWAPState where
  "vs15 = runTicks 0 [tick100, tick100, tick100, tick100, tick100, tick100, tick100, tick100,
                      tick100, tick100, tick100, tick100, tick100, tick100, tick95]"

definition cfgConfirm :: Config where
  "cfgConfirm = cfg0\<lparr>require_confirmation := None\<rparr>"

definition ssPending :: StrategyState where
  "ssPending = \<lparr>config = cfgConfirm, positions = Map.empty,
                 pendingSignals = [''SPY'' \<mapsto> \<lparr>signal = potential_long,
                    triggerCandleTime = 1762182780000, triggerPrice = 95\<rparr>]\<rparr>"

definition ssLong :: StrategyState where
  "ssLong = \<lparr>config = cfg0,
              positions = [''SPY'' \<mapsto> longPosition cfg0 risk0 ''SPY'' 95 1000],
              pendingSignals = Map.empty\<rparr>"

definition riskCapped :: RiskState where
  "riskCapped = risk0\<lparr>tradesToday := 3\<rparr>"

subsection \<open>Relations between two runs\<close>

text \<open>
  The only place where a reading of the clock is stored is the \<open>timestamp\<close> of a VWAP sample.
  Two VWAP states carry the same samples when they agree on everything but those timestamps,
  and two loop states are the same up to the clock when their VWAP states do and all their
  other components but the log are equal.
\<close>

definition untimed :: "VWAPData \<Rightarrow> VWAPData" where
  "untimed d = d\<lparr>timestamp := 0\<rparr>"

definition sameSamples :: "VWAPState \<Rightarrow> VWAPState \<Rightarrow> bool" where
  "sameSamples vs vs' \<longleftrightarrow>
     period vs = period vs'
     \<and> cumulativePriceVolume vs = cumulativePriceVolume vs'
     \<and> cumulativeVolume vs = cumulativeVolume vs'
     \<and> map untimed (dataPoints vs) = map untimed (dataPoints vs')"

definition sameLoop :: "LoopState \<Rightarrow> LoopState \<Rightarrow> bool" where
  "sameLoop st st' \<longleftrightarrow>
     sameSamples (loop_vwapState st) (loop_vwapState st')
     \<and> loop_strategyState st = loop_strategyState st'
     \<and> loop_riskState st = loop_riskState st'
     \<and> loop_trades st = loop_trades st'
     \<and> loop_peakPnL st = loop_peakPnL st'
     \<and> loop_maxDrawdown st = loop_maxDrawdown st'"

text \<open>The sample that \<open>updateVWAP\<close> appends.\<close>

definition newPoint :: "int \<Rightarrow> VWAPState \<Rightarrow> real \<Rightarrow> real \<Rightarrow> real option \<Rightarrow> real option \<Rightarrow> VWAPData" where
  "newPoint now vs p v h l =
     \<lparr>price = p, high = orElse h p, low = orElse l p, volume = v, timestamp = now,
      vwap = (if cumulativeVolume vs > 0
              then Some ((cumulativePriceVolume vs + p * v) / (cumulativeVolume vs + v))
              else None)\<rparr>"

text \<open>
  The entries of the trade log that record an entry, and the loop states reached while the
  history is at most \<open>n\<close> samples long and nothing has been traded.
\<close>

definition isTradeEnter :: "log_event \<Rightarrow> bool" where
  "isTradeEnter e = (case e of TradeEnter x \<Rightarrow> True | _ \<Rightarrow> False)"

definition shortHistory :: "nat \<Rightarrow> Config \<Rightarrow> LoopState \<Rightarrow> bool" where
  "shortHistory n cfg st \<longleftrightarrow>
     length (dataPoints (loop_vwapState st)) \<le> n
     \<and> loop_strategyState st = createStrategyState cfg
     \<and> loop_trades st = []
     \<and> filter isTradeEnter (loop_log st) = []"

subsection \<open>Sample runs\<close>

text \<open>
  One-minute bars from 2025-11-03 15:00 UTC (10:00 in the session's zone) closing at 100 or at
  95 with volume 1000, high and low equal to the close; the five bars of the end-to-end
  scenario, fourteen bars at 100, and those followed by two bars at 95; an environment whose
  draws never trigger a debug line; and the sample configuration with the RSI filter
  permissive (every RSI value is below the oversold bound and above the overbought bound).
\<close>

definition bar100 :: "int \<Rightarrow> Bar" where
  "bar100 i = \<lparr>Timestamp = 1762182000000 + 60000 * i, ClosePrice = 100, Volume = 1000,
                HighPrice = 100, LowPrice = 100\<rparr>"

definition bar95 :: "int \<Rightarrow> Bar" where
  "bar95 i = \<lparr>Timestamp = 1762182000000 + 60000 * i, ClosePrice = 95, Volume = 1000,
               HighPrice = 95, LowPrice = 95\<rparr>"

definition bars5 :: "Bar list" where
  "bars5 = [bar100 0, bar100 1, bar100 2, bar95 3, bar95 4]"

definition bars14 :: "Bar list" where
  "bars14 = [bar100 0, bar100 1, bar100 2, bar100 3, bar100 4, bar100 5, bar100 6, bar100 7,
             bar100 8, bar100 9, bar100 10, bar100 11, bar100 12, bar100 13]"

definition bars16 :: "Bar list" where
  "bars16 = bars14 @ [bar95 14, bar95 15]"

definition env0 :: Env where
  "env0 = \<lparr>env_start = 0, env_clock = (\<lambda>i. 1762300000000 + int i),
            env_random = (\<lambda>i. draws0)\<rparr>"

definition cfg5 :: Config where
  "cfg5 = cfg0\<lparr>rsi_oversold := Some 101, rsi_overbought := Some (- 1)\<rparr>"

section \<open>Properties of the VWAP calculator\<close>


lemma updateVWAP_period [simp]: "period (updateVWAP now s p v h l) = period s"
  by (simp add: updateVWAP_def Let_def)

lemma runTicks_snoc: "runTicks p (us @ [u]) = applyTick (runTicks p us) u"
  by (simp add: runTicks_def)

lemma runTicks_period [simp]: "period (runTicks p us) = p"
  by (induction us rule: rev_induct) (simp_all add: runTicks_def createVWAPState_def applyTick_def)

lemma tl_drop_snoc:
  "k < length xs \<Longrightarrow> tl (drop k xs @ [x]) = drop (Suc k) (xs @ [x])"
  by (simp add: drop_Suc tl_drop tl_append split: list.splits) (metis drop_Suc list.sel(3) tl_drop)

subsection \<open>Evaluating the rounding\<close>

lemma scale_unfold:
  "scale n x = (if n = 0 then 1
      else if 2 \<le> x then 2 * scale (n - 1) (x / 2)
      else if x < 1 then scale (n - 1) (2 * x) / 2
      else 1)"
  by (cases n) simp_all

lemmas double_eval = double_def ulp_def roundHalfEven_def Let_def scale_unfold

text \<open>
  Some roundings: the literal \<^verbatim>\<open>0.1\<close>, a third and its negative, two ties above \<open>2 ^ 53\<close>
  (to the even significand, down and up), and a whole number, which is unchanged.
\<close>

lemma double_examples:
  "double (1 / 10) = 3602879701896397 / 2 ^ 55
   \<and> double (1 / 3) = 6004799503160661 / 2 ^ 54
   \<and> double (- (1 / 3)) = - (6004799503160661 / 2 ^ 54)
   \<and> double 9007199254740993 = 9007199254740992
   \<and> double 9007199254740995 = 9007199254740996
   \<and> double 2300 = 2300"
  by (simp add: double_eval)



text \<open>Without rounding the calculator is the one with exact arithmetic.\<close>

lemma updateVWAP_fl_exact: "updateVWAP_fl (\<lambda>x. x) = updateVWAP"
  by (simp add: fun_eq_iff updateVWAP_fl_def updateVWAP_def)

lemma getVWAP_fl_exact: "getVWAP_fl (\<lambda>x. x) = getVWAP"
  by (simp add: fun_eq_iff getVWAP_fl_def getVWAP_def)

lemma applyTick_fl_exact: "applyTick_fl (\<lambda>x. x) = applyTick"
  by (simp add: fun_eq_iff applyTick_fl_def applyTick_def updateVWAP_fl_exact)

lemma runTicks_fl_exact: "runTicks_fl (\<lambda>x. x) = runTicks"
  by (simp add: fun_eq_iff runTicks_fl_def runTicks_def applyTick_fl_exact)

subsection \<open>The window and the running sums\<close>

lemma updateVWAP_fl_period [simp]: "period (updateVWAP_fl fl now s p v h l) = period s"
  by (simp add: updateVWAP_fl_def Let_def)

lemma runTicks_fl_snoc: "runTicks_fl fl p (us @ [u]) = applyTick_fl fl (runTicks_fl fl p us) u"
  by (simp add: runTicks_fl_def)

lemma runTicks_fl_period [simp]: "period (runTicks_fl fl p us) = p"
  by (induction us rule: rev_induct)
    (simp_all add: runTicks_fl_def createVWAPState_def applyTick_fl_def)

lemma updateVWAP_fl_samples:
  "map sampleOf (dataPoints (updateVWAP_fl fl now s p v h l)) =
     (if period s > 0 \<and> period s \<le> int (length (dataPoints s))
      then tl (map sampleOf (dataPoints s) @ [(p, v)])
      else map sampleOf (dataPoints s) @ [(p, v)])"
  by (simp add: updateVWAP_fl_def Let_def sampleOf_def map_tl)

lemma retained_length: "length (retained p xs) = (if p > 0 then min (length xs) (nat p) else length xs)"
  by (auto simp add: retained_def)

lemma retained_snoc:
  "retained p (xs @ [x]) =
     (if p > 0 \<and> p \<le> int (length (retained p xs))
      then tl (retained p xs @ [x]) else retained p xs @ [x])"
proof (cases "p > 0 \<and> p \<le> int (length (retained p xs))")
  case True
  then have ge: "nat p \<le> length xs" and pos: "p > 0"
    by (auto simp add: retained_length split: if_splits)
  have "tl (drop (length xs - nat p) xs @ [x]) = drop (Suc (length xs - nat p)) (xs @ [x])"
  proof (cases "length xs - nat p < length xs")
    case True
    then show ?thesis by (rule tl_drop_snoc)
  next
    case False
    with pos have "xs = []" by (cases xs) auto
    then show ?thesis by simp
  qed
  then show ?thesis using True ge pos by (simp add: retained_def Suc_diff_le)
next
  case False
  then show ?thesis by (auto simp add: retained_def retained_length split: if_splits)
qed


lemma runTicks_fl_samples:
  "map sampleOf (dataPoints (runTicks_fl fl p us)) = retained p (map tickSample us)"
proof (induction us rule: rev_induct)
  case Nil
  show ?case by (simp add: runTicks_fl_def createVWAPState_def retained_def)
next
  case (snoc u us)
  have len: "length (dataPoints (runTicks_fl fl p us)) = length (retained p (map tickSample us))"
    using arg_cong [OF snoc, of length] by simp
  have eq: "(tick_price u, tick_volume u) = tickSample u" by (simp add: tickSample_def)
  show ?case
    unfolding runTicks_fl_snoc applyTick_fl_def updateVWAP_fl_samples
    by (simp add: snoc len retained_snoc eq)
qed

lemma sumPV_simps [simp]:
  "sumPV [] = 0" "sumPV (x # xs) = fst x * snd x + sumPV xs"
  "sumPV (xs @ ys) = sumPV xs + sumPV ys"
  by (simp_all add: sumPV_def split_def)

lemma sumV_simps [simp]:
  "sumV [] = 0" "sumV (x # xs) = snd x + sumV xs" "sumV (xs @ ys) = sumV xs + sumV ys"
  by (simp_all add: sumV_def)

lemma sum_tl:
  "xs \<noteq> [] \<Longrightarrow> sumPV (tl xs) = sumPV xs - fst (hd xs) * snd (hd xs)"
  "xs \<noteq> [] \<Longrightarrow> sumV (tl xs) = sumV xs - snd (hd xs)"
  by (cases xs; simp)+

lemma updateVWAP_fl_fields:
  fixes s :: VWAPState
  defines "W \<equiv> map sampleOf (dataPoints s)"
  shows "cumulativePriceVolume (updateVWAP_fl fl now s p v h l) =
     (if period s > 0 \<and> period s \<le> int (length (dataPoints s))
      then fl (fl (cumulativePriceVolume s + fl (p * v)) -
               fl (fst (hd (W @ [(p, v)])) * snd (hd (W @ [(p, v)]))))
      else fl (cumulativePriceVolume s + fl (p * v)))"
    and "cumulativeVolume (updateVWAP_fl fl now s p v h l) =
     (if period s > 0 \<and> period s \<le> int (length (dataPoints s))
      then fl (fl (cumulativeVolume s + v) - snd (hd (W @ [(p, v)])))
      else fl (cumulativeVolume s + v))"
  unfolding W_def
  by (cases "dataPoints s"; auto simp add: updateVWAP_fl_def Let_def sampleOf_def)+

lemma updateVWAP_fl_sums:
  fixes s :: VWAPState and x :: "real \<times> real"
  defines "W \<equiv> map sampleOf (dataPoints s)"
  defines "W' \<equiv> (if period s > 0 \<and> period s \<le> int (length (dataPoints s))
                   then tl (W @ [x]) else W @ [x])"
  assumes inv: "cumulativePriceVolume s = sumPV W" "cumulativeVolume s = sumV W"
      and ex: "fl (fst x * snd x) = fst x * snd x"
        "fl (sumPV (W @ [x])) = sumPV (W @ [x])" "fl (sumV (W @ [x])) = sumV (W @ [x])"
        "fl (fst (hd (W @ [x])) * snd (hd (W @ [x]))) = fst (hd (W @ [x])) * snd (hd (W @ [x]))"
        "fl (sumPV W') = sumPV W'" "fl (sumV W') = sumV W'"
  shows "cumulativePriceVolume (updateVWAP_fl fl now s (fst x) (snd x) h l) = sumPV W'
       \<and> cumulativeVolume (updateVWAP_fl fl now s (fst x) (snd x) h l) = sumV W'"
proof -
  have a: "fl (sumPV W + fst x * snd x) = sumPV W + fst x * snd x"
    and b: "fl (sumV W + snd x) = sumV W + snd x"
    using ex(2,3) by simp_all
  have c: "fl (sumPV W + fst x * snd x - fst (hd (W @ [x])) * snd (hd (W @ [x]))) =
             sumPV (tl (W @ [x]))"
    and d: "fl (sumV W + snd x - snd (hd (W @ [x]))) = sumV (tl (W @ [x]))"
    if "W' = tl (W @ [x])"
    using ex(5,6) sum_tl [of "W @ [x]"] that by simp_all
  show ?thesis
    unfolding updateVWAP_fl_fields
    by (simp add: inv ex(1) a b ex(4) W_def [symmetric] W'_def c d)
qed

lemma computedValues_snoc:
  "computedValues p ys (xs @ [x]) = computedValues p ys xs @ stepValues p (ys @ xs) x"
  by (induction xs arbitrary: ys) simp_all

lemma runTicks_fl_sums:
  assumes "list_all (\<lambda>x. fl x = x) (computedValues p [] (map tickSample us))"
  shows "cumulativePriceVolume (runTicks_fl fl p us) = sumPV (retained p (map tickSample us))
       \<and> cumulativeVolume (runTicks_fl fl p us) = sumV (retained p (map tickSample us))"
  using assms
proof (induction us rule: rev_induct)
  case Nil
  show ?case by (simp add: runTicks_fl_def createVWAPState_def retained_def)
next
  case (snoc u us)
  let ?s = "runTicks_fl fl p us"
  let ?x = "tickSample u"
  from snoc.prems have prev: "list_all (\<lambda>x. fl x = x) (computedValues p [] (map tickSample us))"
    and step: "list_all (\<lambda>x. fl x = x) (stepValues p (map tickSample us) ?x)"
    by (simp_all add: computedValues_snoc)
  note inv = snoc.IH [OF prev]
  have W: "map sampleOf (dataPoints ?s) = retained p (map tickSample us)"
    by (rule runTicks_fl_samples)
  have len: "length (dataPoints ?s) = length (retained p (map tickSample us))"
    using arg_cong [OF W, of length] by simp
  have W': "(if period ?s > 0 \<and> period ?s \<le> int (length (dataPoints ?s))
             then tl (map sampleOf (dataPoints ?s) @ [?x])
             else map sampleOf (dataPoints ?s) @ [?x]) = retained p (map tickSample (us @ [u]))"
    by (simp add: W len retained_snoc)
  have "cumulativePriceVolume (updateVWAP_fl fl (tick_now u) ?s (fst ?x) (snd ?x) (tick_high u) (tick_low u))
          = sumPV (retained p (map tickSample (us @ [u])))
      \<and> cumulativeVolume (updateVWAP_fl fl (tick_now u) ?s (fst ?x) (snd ?x) (tick_high u) (tick_low u))
          = sumV (retained p (map tickSample (us @ [u])))"
    unfolding W' [symmetric]
    apply (rule updateVWAP_fl_sums)
    using inv step by (auto simp add: W len stepValues_def retained_snoc)
  then show ?case
    by (simp add: runTicks_fl_snoc applyTick_fl_def tickSample_def [of u])
qed


lemma getVWAP_fl_runTicks:
  assumes "list_all (\<lambda>x. fl x = x) (computedValues p [] (map tickSample us))"
      and "p \<le> 0 \<or> nat p \<le> length us"
  shows "getVWAP_fl fl (runTicks_fl fl p us) =
           map_option fl (volumeWeightedAverage (retained p (map tickSample us)))"
proof -
  have len: "length (dataPoints (runTicks_fl fl p us)) = length (retained p (map tickSample us))"
    using arg_cong [OF runTicks_fl_samples, of length fl p us] by simp
  have full: "\<not> (p > 0 \<and> int (length (dataPoints (runTicks_fl fl p us))) < p)"
    using assms(2) by (auto simp add: len retained_length split: if_splits)
  show ?thesis
    using full runTicks_fl_sums [OF assms(1)]
    by (auto simp add: getVWAP_fl_def volumeWeightedAverage_def sumPV_def sumV_def)
qed

text \<open>
  The invariant for any rounding \<open>fl\<close> that leaves the values of the run unchanged.
\<close>

lemma runTicks_fl_invariant:
  assumes ex: "list_all (\<lambda>x. fl x = x) (computedValues p [] (map tickSample us))"
  shows "cumulativePriceVolume (runTicks_fl fl p us) =
           (\<Sum>d\<leftarrow>dataPoints (runTicks_fl fl p us). price d * volume d)
       \<and> cumulativeVolume (runTicks_fl fl p us) =
           (\<Sum>d\<leftarrow>dataPoints (runTicks_fl fl p us). volume d)
       \<and> (0 < p \<and> nat p < length us \<longrightarrow>
            map sampleOf (dataPoints (runTicks_fl fl p us)) =
              drop (length us - nat p) (map tickSample us)
            \<and> getVWAP_fl fl (runTicks_fl fl p us) =
                map_option fl
                  (volumeWeightedAverage (drop (length us - nat p) (map tickSample us))))
       \<and> (p = 0 \<longrightarrow>
            map sampleOf (dataPoints (runTicks_fl fl p us)) = map tickSample us
            \<and> getVWAP_fl fl (runTicks_fl fl p us) =
                map_option fl (volumeWeightedAverage (map tickSample us)))"
proof -
  have s: "map sampleOf (dataPoints (runTicks_fl fl p us)) = retained p (map tickSample us)"
    by (rule runTicks_fl_samples)
  have sums: "(\<Sum>d\<leftarrow>ds. price d * volume d) = sumPV (map sampleOf ds)"
    "(\<Sum>d\<leftarrow>ds. volume d) = sumV (map sampleOf ds)" for ds
    by (simp_all add: sumPV_def sumV_def sampleOf_def comp_def)
  have a: "cumulativePriceVolume (runTicks_fl fl p us) =
             (\<Sum>d\<leftarrow>dataPoints (runTicks_fl fl p us). price d * volume d)"
    and b: "cumulativeVolume (runTicks_fl fl p us) =
             (\<Sum>d\<leftarrow>dataPoints (runTicks_fl fl p us). volume d)"
    using runTicks_fl_sums [OF ex] by (simp_all only: sums s)
  have c: "getVWAP_fl fl (runTicks_fl fl p us) =
             map_option fl (volumeWeightedAverage (retained p (map tickSample us)))"
    if "p \<le> 0 \<or> nat p \<le> length us"
    using getVWAP_fl_runTicks [OF ex that] .
  have w: "retained p (map tickSample us) = drop (length us - nat p) (map tickSample us)"
    if "0 < p" using that by (simp add: retained_def)
  have w0: "retained p (map tickSample us) = map tickSample us" if "p = 0"
    using that by (simp add: retained_def)
  have long: "map sampleOf (dataPoints (runTicks_fl fl p us)) =
                drop (length us - nat p) (map tickSample us)
            \<and> getVWAP_fl fl (runTicks_fl fl p us) =
                map_option fl
                  (volumeWeightedAverage (drop (length us - nat p) (map tickSample us)))"
    if "0 < p \<and> nat p < length us"
    using that s c w by simp
  have all: "map sampleOf (dataPoints (runTicks_fl fl p us)) = map tickSample us
            \<and> getVWAP_fl fl (runTicks_fl fl p us) =
                map_option fl (volumeWeightedAverage (map tickSample us))"
    if "p = 0"
    using s c w0 [OF that] that by simp
  show ?thesis
    using a b long all by blast
qed

text \<open>
  In exact arithmetic nothing is rounded, and the invariant holds in every state reached
  from \<open>createVWAPState p\<close> by calls of \<open>updateVWAP\<close>.
\<close>

lemma runTicks_exact_invariant:
  "cumulativePriceVolume (runTicks p us) = (\<Sum>d\<leftarrow>dataPoints (runTicks p us). price d * volume d)
   \<and> cumulativeVolume (runTicks p us) = (\<Sum>d\<leftarrow>dataPoints (runTicks p us). volume d)
   \<and> (0 < p \<and> nat p < length us \<longrightarrow>
        map sampleOf (dataPoints (runTicks p us)) = drop (length us - nat p) (map tickSample us)
        \<and> getVWAP (runTicks p us) = volumeWeightedAverage (drop (length us - nat p) (map tickSample us)))
   \<and> (p = 0 \<longrightarrow>
        map sampleOf (dataPoints (runTicks p us)) = map tickSample us
        \<and> getVWAP (runTicks p us) = volumeWeightedAverage (map tickSample us))"
proof -
  have "list_all (\<lambda>x. (\<lambda>y. y) x = x) (computedValues p [] (map tickSample us))"
    by (simp add: list_all_iff)
  from runTicks_fl_invariant [OF this] show ?thesis
    by (simp add: runTicks_fl_exact getVWAP_fl_exact option.map_ident)
qed




text \<open>
  Claim C7. \<open>getVWAP\<close> is \<open>None\<close> exactly when \<open>cumulativeVolume\<close> is \<open>0\<close>, or the period is
  positive and fewer than \<open>period\<close> samples are retained; in every other state it is
  \<open>cumulativePriceVolume / cumulativeVolume\<close>, and the divisor is not zero whenever the
  division is reached.
\<close>

theorem getVWAP_none_iff:
  "(getVWAP s = None \<longleftrightarrow>
      cumulativeVolume s = 0 \<or> (period s > 0 \<and> int (length (dataPoints s)) < period s))
   \<and> (getVWAP s \<noteq> None \<longrightarrow>
      cumulativeVolume s \<noteq> 0 \<and> getVWAP s = Some (cumulativePriceVolume s / cumulativeVolume s))"
  by (simp add: getVWAP_def)

theorem getVWAP_none_iff_witness:
  "getVWAP (runTicks 5 [t1]) = None
   \<and> getVWAP (createVWAPState 0) = None
   \<and> cumulativeVolume (runTicks 2 [t1, t2]) \<noteq> 0
   \<and> getVWAP (runTicks 2 [t1, t2]) = Some 105"
  using getVWAP_none_iff [of "runTicks 5 [t1]"] getVWAP_none_iff [of "createVWAPState 0"]
    getVWAP_none_iff [of "runTicks 2 [t1, t2]"]
  by (simp add: runTicks_def applyTick_def updateVWAP_def createVWAPState_def Let_def orElse_def
      t1_def t2_def)

section \<open>Properties of the risk manager\<close>

lemma canOpenPosition_false_iff:
  "fst (canOpenPosition rnd state t) = False \<longleftrightarrow>
     int (card (dom (risk_positions state))) \<ge> max_positions (risk_config state)
   \<or> tradesToday state \<ge> max_trades_per_day (risk_config state)
   \<or> lossesToday state \<ge> max_losses_per_day (risk_config state)
   \<or> (\<exists>l. lastLossTime state = Some l \<and> l \<noteq> 0
          \<and> real_of_int (t - l) / 60000 < cooldown_minutes (risk_config state))
   \<or> dailyPnL state \<le> - max_daily_loss (risk_config state)"
  by (auto simp add: canOpenPosition_def split: option.splits)

text \<open>
  Claim C2. \<open>canOpenPosition\<close> is false exactly when a gate fails, the gates being tried in
  the order position cap, trade cap, loss cap, cooldown, daily-loss cap. The cooldown gate is
  guarded by the truthiness of \<open>lastLossTime\<close>: with a loss recorded at time \<open>0\<close> and one
  minute elapsed of a five-minute cooldown, every other gate open, the function answers true
  and logs nothing.
\<close>

theorem canOpenPosition_loss_at_epoch:
  "canOpenPosition rnd (risk0\<lparr>lastLossTime := Some 0\<rparr>) 60000 = (True, [])"
  by (simp add: canOpenPosition_def risk0_def createRiskState_def cfg0_def)

lemma canOpenPosition_loss_after_epoch:
  "fst (canOpenPosition rnd (risk0\<lparr>lastLossTime := Some 1\<rparr>) 60000) = False"
  by (simp add: canOpenPosition_def risk0_def createRiskState_def cfg0_def)

text \<open>
  Claim C6. \<open>closePosition\<close> removes the symbol's entry, adds the profit or loss to
  \<open>dailyPnL\<close> and to \<open>currentBalance\<close>, counts one more trade, and, exactly when the profit is
  negative, counts one more loss and sets \<open>lastLossTime\<close> to the closing time; otherwise
  \<open>lossesToday\<close> and \<open>lastLossTime\<close> stay as they were.
\<close>

theorem closePosition_effect:
  "risk_positions (fst (closePosition state s pnl t)) = (risk_positions state)(s := None)
   \<and> dailyPnL (fst (closePosition state s pnl t)) = dailyPnL state + pnl
   \<and> currentBalance (fst (closePosition state s pnl t)) = currentBalance state + pnl
   \<and> tradesToday (fst (closePosition state s pnl t)) = tradesToday state + 1
   \<and> (pnl < 0 \<longrightarrow> lossesToday (fst (closePosition state s pnl t)) = lossesToday state + 1
                  \<and> lastLossTime (fst (closePosition state s pnl t)) = Some t)
   \<and> (pnl \<ge> 0 \<longrightarrow> lossesToday (fst (closePosition state s pnl t)) = lossesToday state
                  \<and> lastLossTime (fst (closePosition state s pnl t)) = lastLossTime state)"
  by (simp add: closePosition_def Let_def)

theorem closePosition_effect_witness:
  "risk_positions risk1 ''SPY'' \<noteq> None
   \<and> risk_positions (fst (closePosition risk1 ''SPY'' (-20) 2000)) ''SPY'' = None
   \<and> dailyPnL (fst (closePosition risk1 ''SPY'' (-20) 2000)) = -20
   \<and> currentBalance (fst (closePosition risk1 ''SPY'' (-20) 2000)) = 9980
   \<and> tradesToday (fst (closePosition risk1 ''SPY'' (-20) 2000)) = 1
   \<and> lossesToday (fst (closePosition risk1 ''SPY'' (-20) 2000)) = 1
   \<and> lastLossTime (fst (closePosition risk1 ''SPY'' (-20) 2000)) = Some 2000
   \<and> lossesToday (fst (closePosition risk1 ''SPY'' 30 2000)) = 0
   \<and> lastLossTime (fst (closePosition risk1 ''SPY'' 30 2000)) = None"
  using closePosition_effect [of risk1 "''SPY''" "-20" 2000]
        closePosition_effect [of risk1 "''SPY''" 30 2000]
  by (simp add: risk1_def risk0_def recordPosition_def createRiskState_def cfg0_def orElse_def)

lemma checkDailyReset_effect:
  "t \<ge> dailyResetTime state \<Longrightarrow>
     fst (checkDailyReset tz state t) =
       state\<lparr>dailyPnL := 0, tradesToday := 0, lossesToday := 0,
             dailyResetTime := nextLocalMidnight tz t\<rparr>"
  "t < dailyResetTime state \<Longrightarrow> checkDailyReset tz state t = (state, [])"
  by (simp_all add: checkDailyReset_def)

text \<open>
  Claim C3. At or after \<open>dailyResetTime\<close>, \<open>checkDailyReset\<close> zeroes \<open>dailyPnL\<close>,
  \<open>tradesToday\<close> and \<open>lossesToday\<close> and moves \<open>dailyResetTime\<close> to the next local midnight;
  before it the state is returned as it is. It leaves \<open>lastLossTime\<close> as it was, where
  \<open>resetDailyPnL\<close> clears it: for a state with a loss at time \<open>1000\<close>, reset at the midnight
  that is its \<open>dailyResetTime\<close>.
\<close>

theorem checkDailyReset_keeps_lastLossTime:
  "dailyResetTime (risk0\<lparr>lastLossTime := Some 1000\<rparr>) = 86400000
   \<and> lastLossTime (fst (checkDailyReset 0 (risk0\<lparr>lastLossTime := Some 1000\<rparr>) 86400000)) = Some 1000
   \<and> lastLossTime (fst (resetDailyPnL 0 86400000 (risk0\<lparr>lastLossTime := Some 1000\<rparr>))) = None"
  by (simp add: checkDailyReset_def resetDailyPnL_def risk0_def createRiskState_def
      getNextResetTime_def nextLocalMidnight_def)


section \<open>Properties of the strategy\<close>

subsection \<open>Results without their log\<close>

lemma withLog_fst [simp]: "fst (withLog l r) = fst r"
  by (simp add: withLog_def)

lemma withLog_snd [simp]: "snd (withLog l r) = l @ snd r"
  by (simp add: withLog_def)

lemma enterLongPosition_fst:
  "fst (enterLongPosition ss rs s p t) =
     (ss\<lparr>positions := (positions ss)(s \<mapsto> longPosition (config ss) rs s p t)\<rparr>,
      rs\<lparr>risk_positions := (risk_positions rs)(s \<mapsto>
          \<lparr>info_symbol = s, info_entryPrice = p,
           info_quantity = entryQuantity (config ss) rs p, info_entryTime = t\<rparr>)\<rparr>)"
  by (simp add: enterLongPosition_def recordPosition_def longPosition_def entryQuantity_def Let_def)

lemma enterShortPosition_fst:
  "fst (enterShortPosition ss rs s p t) =
     (ss\<lparr>positions := (positions ss)(s \<mapsto> shortPosition (config ss) rs s p t)\<rparr>,
      rs\<lparr>risk_positions := (risk_positions rs)(s \<mapsto>
          \<lparr>info_symbol = s, info_entryPrice = p,
           info_quantity = - entryQuantity (config ss) rs p, info_entryTime = t\<rparr>)\<rparr>)"
  by (simp add: enterShortPosition_def recordPosition_def shortPosition_def entryQuantity_def Let_def)

lemma exitPosition_Some:
  "positions ss s = Some pos \<Longrightarrow>
     fst (exitPosition ss rs s p reason pnl t) =
       (ss\<lparr>positions := (positions ss)(s := None)\<rparr>, fst (closePosition rs s pnl t))"
  by (simp add: exitPosition_def Let_def split: prod.splits)

lemma exitPosition_None:
  "positions ss s = None \<Longrightarrow> exitPosition ss rs s p reason pnl t = ((ss, rs), [])"
  by (simp add: exitPosition_def)

lemma closePosition_positions [simp]:
  "risk_positions (fst (closePosition rs s pnl t)) = (risk_positions rs)(s := None)"
  by (simp add: closePosition_def Let_def)

lemma exitPosition_shape:
  "keeps s ss rs (fst (exitPosition ss rs s p reason pnl t))
   \<or> exits s ss rs (fst (exitPosition ss rs s p reason pnl t))"
  by (cases "positions ss s") (simp_all add: exitPosition_None exitPosition_Some keeps_def exits_def)

lemma enterLongPosition_shape: "enters s ss rs (fst (enterLongPosition ss rs s p t))"
  by (auto simp add: enters_def enterLongPosition_fst)

lemma enterShortPosition_shape: "enters s ss rs (fst (enterShortPosition ss rs s p t))"
  by (auto simp add: enters_def enterShortPosition_fst)

lemma enters_pending:
  "enters s (ss\<lparr>pendingSignals := q\<rparr>) rs r \<Longrightarrow> enters s ss rs r"
  by (simp add: enters_def)

lemma flatStep_same: "flatStep s ss rs (ss, rs)"
  by (simp add: flatStep_def keeps_def)

lemma flatStep_pending: "flatStep s ss rs (ss\<lparr>pendingSignals := q\<rparr>, rs)"
  by (simp add: flatStep_def keeps_def)

lemma flatStep_long: "flatStep s ss rs (fst (enterLongPosition ss rs s p t))"
  by (simp add: flatStep_def enterLongPosition_shape)

lemma flatStep_short: "flatStep s ss rs (fst (enterShortPosition ss rs s p t))"
  by (simp add: flatStep_def enterShortPosition_shape)

lemma flatStep_long_pending:
  "flatStep s ss rs (fst (enterLongPosition (ss\<lparr>pendingSignals := q\<rparr>) rs s p t))"
  using enters_pending [OF enterLongPosition_shape] by (simp add: flatStep_def)

lemma flatStep_short_pending:
  "flatStep s ss rs (fst (enterShortPosition (ss\<lparr>pendingSignals := q\<rparr>) rs s p t))"
  using enters_pending [OF enterShortPosition_shape] by (simp add: flatStep_def)

lemma checkPending_shape:
  "flatStep s ss rs (fst (checkPending ss rs s p v pending t))"
  by (cases "signal pending")
     (simp_all add: checkPending_def Let_def flatStep_pending flatStep_long_pending
        flatStep_short_pending)

lemma checkNewSignals_shape:
  "flatStep s ss rs (fst (checkNewSignals ss rs s p v rsi t))"
  by (simp add: checkNewSignals_def Let_def flatStep_same flatStep_pending flatStep_long
      flatStep_short)


lemma fst_if: "fst (if c then x else y) = (if c then fst x else fst y)"
  by simp

lemma fst_case_option:
  "fst (case opt of None \<Rightarrow> a | Some x \<Rightarrow> f x) = (case opt of None \<Rightarrow> fst a | Some x \<Rightarrow> fst (f x))"
  by (cases opt) simp_all

lemma checkEntrySignals_fst:
  "fst (checkEntrySignals rnd ss rs s p v slope atr rsi vs t) =
     (if \<not> fst (canOpenPosition (r_cooldown rnd) rs t) then (ss, rs)
      else if getUTCHours t < fst (start_time (config ss)) + 5
              \<or> (getUTCHours t = fst (start_time (config ss)) + 5
                  \<and> getUTCMinutes t < snd (start_time (config ss))) then (ss, rs)
      else if getUTCHours t > fst (end_time (config ss)) + 5
              \<or> (getUTCHours t = fst (end_time (config ss)) + 5
                  \<and> getUTCMinutes t \<ge> snd (end_time (config ss))) then (ss, rs)
      else if length (dataPoints vs) > 20
              \<and> last (map volume (dataPoints vs))
                   < sum_list (slice_last 20 (map volume (dataPoints vs)))
                       / real (length (slice_last 20 (map volume (dataPoints vs))))
                       * min_volume_mult (config ss) then (ss, rs)
      else if orElse (min_atr_pct (config ss)) 0 > 0
              \<and> atr / p < orElse (min_atr_pct (config ss)) 0 then (ss, rs)
      else if isChoppy (map price (dataPoints vs))
                (map (\<lambda>d. orElse (vwap d) (price d)) (dataPoints vs)) 20
                (chop_threshold (config ss)) then (ss, rs)
      else (case pendingSignals ss s of
              Some pending \<Rightarrow> fst (checkPending ss rs s p v pending t)
            | None \<Rightarrow> fst (checkNewSignals ss rs s p v rsi t)))"
  unfolding checkEntrySignals_def Let_def split_def
  by (simp only: fst_if fst_case_option fst_conv withLog_fst length_map)

lemma checkEntrySignals_shape:
  "flatStep s ss rs (fst (checkEntrySignals rnd ss rs s p v slope atr rsi vs t))"
  unfolding checkEntrySignals_fst
  by (simp add: flatStep_same checkPending_shape checkNewSignals_shape split: option.splits)


lemma managePosition_shape:
  assumes "positions ss s = Some pos"
  shows "keeps s ss rs (fst (managePosition ss rs s p v pos t))
       \<or> exits s ss rs (fst (managePosition ss rs s p v pos t))"
proof -
  define Q where "Q r \<longleftrightarrow> keeps s ss rs r \<or> exits s ss rs r" for r
  have upd: "Q (ss\<lparr>positions := (positions ss)(s \<mapsto> q)\<rparr>, rs)" for q
    using assms by (auto simp add: Q_def keeps_def)
  have same: "Q (ss, rs)" by (simp add: Q_def keeps_def)
  have ex: "Q (fst (exitPosition ss rs s p reason pnl t))" for reason pnl
    using exitPosition_shape [of s ss rs p reason pnl t] by (simp add: Q_def)
  have "Q (fst (managePosition ss rs s p v pos t))"
    unfolding managePosition_def Let_def
    apply (simp only: fst_if fst_conv withLog_fst)
    apply (simp add: upd same ex)
    done
  then show ?thesis by (simp add: Q_def)
qed

lemma transition_same: "transition s ss rs (ss, rs)"
  by (simp add: transition_def keeps_def)

lemma transition_exit: "transition s ss rs (fst (exitPosition ss rs s p reason pnl t))"
  using exitPosition_shape [of s ss rs p reason pnl t] by (auto simp add: transition_def)

lemma transition_manage:
  "positions ss s = Some pos \<Longrightarrow> transition s ss rs (fst (managePosition ss rs s p v pos t))"
  using managePosition_shape [of ss s pos rs p v t] by (auto simp add: transition_def)

lemma transition_check:
  "positions ss s = None \<Longrightarrow>
     transition s ss rs (fst (checkEntrySignals rnd ss rs s p v slope atr rsi vs t))"
  using checkEntrySignals_shape [of s ss rs rnd p v slope atr rsi vs t]
  by (auto simp add: transition_def flatStep_def)

lemma evaluateStrategy_shape:
  "transition s ss rs (fst (evaluateStrategy rnd ss rs s p v vso t))"
  unfolding evaluateStrategy_def Let_def
  by (simp add: transition_same transition_exit transition_manage transition_check
      split: option.splits)

text \<open>
  Claim C10. \<open>evaluateStrategy\<close> keeps the two position maps in step: an instrument that
  has a strategy position exactly when it has an entry of the risk manager before the call
  has so after it. (An entry stores into both maps and an exit deletes from both, in the one
  returned pair.)
\<close>

theorem evaluateStrategy_position_maps:
  assumes "positions ss k \<noteq> None \<longleftrightarrow> risk_positions rs k \<noteq> None"
  shows "positions (fst (fst (evaluateStrategy rnd ss rs s p v vso t))) k \<noteq> None
         \<longleftrightarrow> risk_positions (snd (fst (evaluateStrategy rnd ss rs s p v vso t))) k \<noteq> None"
proof -
  let ?r = "fst (evaluateStrategy rnd ss rs s p v vso t)"
  consider (keep) "keeps s ss rs ?r" | (enter) "enters s ss rs ?r" | (exit) "exits s ss rs ?r"
    using evaluateStrategy_shape [of s ss rs rnd p v vso t] by (auto simp add: transition_def)
  then show ?thesis
  proof cases
    case keep
    then have "k \<in> dom (positions (fst ?r)) \<longleftrightarrow> k \<in> dom (positions ss)"
      and "risk_positions (snd ?r) k = risk_positions rs k"
      by (simp_all add: keeps_def)
    with assms show ?thesis by (simp add: domIff)
  next
    case enter
    then obtain pos info where "positions (fst ?r) = (positions ss)(s \<mapsto> pos)"
      and "risk_positions (snd ?r) = (risk_positions rs)(s \<mapsto> info)"
      by (auto simp add: enters_def)
    with assms show ?thesis by (cases "k = s") simp_all
  next
    case exit
    then have "positions (fst ?r) = (positions ss)(s := None)"
      and "risk_positions (snd ?r) = (risk_positions rs)(s := None)"
      by (simp_all add: exits_def)
    with assms show ?thesis by (cases "k = s") simp_all
  qed
qed

subsection \<open>The path through evaluateStrategy\<close>


lemma vs15_eval:
  "vs15 = \<lparr>period = 0,
     dataPoints =
       [\<lparr>price = 100, high = 100, low = 100, volume = 1000, timestamp = 0, vwap = None\<rparr>,
        \<lparr>price = 100, high = 100, low = 100, volume = 1000, timestamp = 0, vwap = Some 100\<rparr>,
        \<lparr>price = 100, high = 100, low = 100, volume = 1000, timestamp = 0, vwap = Some 100\<rparr>,
        \<lparr>price = 100, high = 100, low = 100, volume = 1000, timestamp = 0, vwap = Some 100\<rparr>,
        \<lparr>price = 100, high = 100, low = 100, volume = 1000, timestamp = 0, vwap = Some 100\<rparr>,
        \<lparr>price = 100, high = 100, low = 100, volume = 1000, timestamp = 0, vwap = Some 100\<rparr>,
        \<lparr>price = 100, high = 100, low = 100, volume = 1000, timestamp = 0, vwap = Some 100\<rparr>,
        \<lparr>price = 100, high = 100, low = 100, volume = 1000, timestamp = 0, vwap = Some 100\<rparr>,
        \<lparr>price = 100, high = 100, low = 100, volume = 1000, timestamp = 0, vwap = Some 100\<rparr>,
        \<lparr>price = 100, high = 100, low = 100, volume = 1000, timestamp = 0, vwap = Some 100\<rparr>,
        \<lparr>price = 100, high = 100, low = 100, volume = 1000, timestamp = 0, vwap = Some 100\<rparr>,
        \<lparr>price = 100, high = 100, low = 100, volume = 1000, timestamp = 0, vwap = Some 100\<rparr>,
        \<lparr>price = 100, high = 100, low = 100, volume = 1000, timestamp = 0, vwap = Some 100\<rparr>,
        \<lparr>price = 100, high = 100, low = 100, volume = 1000, timestamp = 0, vwap = Some 100\<rparr>,
        \<lparr>price = 95, high = 95, low = 95, volume = 1000, timestamp = 0, vwap = Some (299 / 3)\<rparr>],
     cumulativePriceVolume = 1495000, cumulativeVolume = 15000\<rparr>"
  by (simp add: vs15_def runTicks_def applyTick_def updateVWAP_def createVWAPState_def Let_def
      orElse_def tick100_def tick95_def cong: let_weak_cong)

lemma vs15_indicators:
  "calculateATR (dataPoints vs15) 14 = Some (5 / 14)"
  "calculateRSI (map price (dataPoints vs15)) 14 = Some 0"
  "getVWAP vs15 = Some (299 / 3)"
  by (simp_all add: vs15_eval calculateATR_def calculateRSI_def slice_last_def trueRange_def
      getVWAP_def Let_def cong: let_weak_cong)


lemma evaluateStrategy_no_state: "evaluateStrategy rnd ss rs s p v None t = ((ss, rs), [])"
  by (simp add: evaluateStrategy_def)

lemma evaluateStrategy_undefined:
  assumes "calculateATR (dataPoints vs) 14 = None
           \<or> calculateRSI (map price (dataPoints vs)) (rsiPeriodOf (config ss)) = None"
  shows "evaluateStrategy rnd ss rs s p v (Some vs) t = ((ss, rs), [])"
  using assms unfolding evaluateStrategy_def Let_def rsiPeriodOf_def
  by (auto split: option.splits)

lemma evaluateStrategy_position:
  assumes "calculateATR (dataPoints vs) 14 = Some atr"
      and "calculateRSI (map price (dataPoints vs)) (rsiPeriodOf (config ss)) = Some rsi"
      and "positions ss s = Some pos"
  shows "evaluateStrategy rnd ss rs s p v (Some vs) t =
           (if getUTCHours t \<ge> 20 \<and> getUTCMinutes t \<ge> 55
            then exitPosition ss rs s p ''EOD_FORCE_EXIT'' (calculatePnL pos p) t
            else managePosition ss rs s p v pos t)"
  using assms unfolding evaluateStrategy_def Let_def rsiPeriodOf_def
  by (simp split: option.splits)

lemma evaluateStrategy_flat:
  assumes "calculateATR (dataPoints vs) 14 = Some atr"
      and "calculateRSI (map price (dataPoints vs)) (rsiPeriodOf (config ss)) = Some rsi"
      and "positions ss s = None"
  shows "evaluateStrategy rnd ss rs s p v (Some vs) t =
           checkEntrySignals rnd ss rs s p v
             (calculateVWAPSlope v (map (\<lambda>d. orElse (vwap d) (price d)) (dataPoints vs)) 5)
             atr rsi vs t"
  using assms unfolding evaluateStrategy_def Let_def rsiPeriodOf_def
  by (simp split: option.splits)

lemma exitPosition_log:
  "positions ss s = Some pos \<Longrightarrow>
     last (snd (exitPosition ss rs s p reason pnl t)) =
       TradeExit \<lparr>exit_symbol = s, exit_side = side pos, exit_entryPrice = entryPrice pos,
                  exit_exitPrice = p, exit_quantity = quantity pos, exit_pnl = pnl,
                  exit_pnlPct = pnl / (entryPrice pos * quantity pos) * 100,
                  exit_reason = reason,
                  exit_holdTime = real_of_int (t - entryTime pos) / 1000,
                  exit_timestamp = t\<rparr>"
  by (simp add: exitPosition_def Let_def split: prod.splits)

text \<open>
  Claim C9, as amended. When an instrument has an open position, the history passed to
  \<open>evaluateStrategy\<close> is long enough for ATR and RSI to be defined, and the time is between
  20:55 and 20:59 UTC, the call is the exit with reason \<^verbatim>\<open>EOD_FORCE_EXIT\<close> at the current
  price, whatever the profit or loss and before \<open>managePosition\<close> is consulted: the position
  is deleted, the risk state is that of \<open>closePosition\<close>, and the trade log ends with the exit
  record carrying that reason.
\<close>

theorem eod_force_exit:
  assumes "positions ss s = Some pos"
      and "calculateATR (dataPoints vs) 14 = Some atr"
      and "calculateRSI (map price (dataPoints vs)) (rsiPeriodOf (config ss)) = Some rsi"
      and "getUTCHours t = 20" and "getUTCMinutes t \<ge> 55"
  shows "evaluateStrategy rnd ss rs s p v (Some vs) t =
           exitPosition ss rs s p ''EOD_FORCE_EXIT'' (calculatePnL pos p) t
       \<and> positions (fst (fst (evaluateStrategy rnd ss rs s p v (Some vs) t))) s = None
       \<and> snd (fst (evaluateStrategy rnd ss rs s p v (Some vs) t)) =
           fst (closePosition rs s (calculatePnL pos p) t)
       \<and> (\<exists>e. last (snd (evaluateStrategy rnd ss rs s p v (Some vs) t)) = TradeExit e
              \<and> exit_reason e = ''EOD_FORCE_EXIT'' \<and> exit_exitPrice e = p
              \<and> exit_pnl e = calculatePnL pos p)"
proof -
  have eq: "evaluateStrategy rnd ss rs s p v (Some vs) t =
              exitPosition ss rs s p ''EOD_FORCE_EXIT'' (calculatePnL pos p) t"
    using evaluateStrategy_position [OF assms(2) assms(3) assms(1)] assms(4) assms(5) by simp
  show ?thesis
    unfolding eq
    using exitPosition_Some [OF assms(1), of rs p "''EOD_FORCE_EXIT''" "calculatePnL pos p" t]
          exitPosition_log [OF assms(1), of rs p "''EOD_FORCE_EXIT''" "calculatePnL pos p" t]
    by simp
qed

theorem eod_force_exit_witness:
  "positions ssLong ''SPY'' \<noteq> None
   \<and> getUTCHours 1762203300000 = 20 \<and> getUTCMinutes 1762203300000 = 55
   \<and> positions (fst (fst (evaluateStrategy draws0 ssLong risk1 ''SPY'' 96 (299 / 3) (Some vs15)
        1762203300000))) ''SPY'' = None
   \<and> dailyPnL (snd (fst (evaluateStrategy draws0 ssLong risk1 ''SPY'' 96 (299 / 3) (Some vs15)
        1762203300000))) = 10
   \<and> risk_positions (snd (fst (evaluateStrategy draws0 ssLong risk1 ''SPY'' 96 (299 / 3)
        (Some vs15) 1762203300000))) ''SPY'' = None"
proof -
  have pos: "positions ssLong ''SPY'' = Some (longPosition cfg0 risk0 ''SPY'' 95 1000)"
    by (simp add: ssLong_def)
  have rsi: "calculateRSI (map price (dataPoints vs15)) (rsiPeriodOf (config ssLong)) = Some 0"
    using vs15_indicators(2) by (simp add: rsiPeriodOf_def ssLong_def cfg0_def)
  have h: "getUTCHours 1762203300000 = 20" by (simp add: getUTCHours_def)
  have m: "getUTCMinutes 1762203300000 \<ge> 55" by (simp add: getUTCMinutes_def)
  note th = eod_force_exit [OF pos vs15_indicators(1) rsi h m, of draws0 risk1 96 "299 / 3"]
  have pnl: "calculatePnL (longPosition cfg0 risk0 ''SPY'' 95 1000) 96 = 10"
    by (simp add: calculatePnL_def longPosition_def entryQuantity_def cfg0_def)
  have a: "positions (fst (fst (evaluateStrategy draws0 ssLong risk1 ''SPY'' 96 (299 / 3)
             (Some vs15) 1762203300000))) ''SPY'' = None"
    by (rule th [THEN conjunct2, THEN conjunct1])
  have b: "snd (fst (evaluateStrategy draws0 ssLong risk1 ''SPY'' 96 (299 / 3) (Some vs15)
             1762203300000)) = fst (closePosition risk1 ''SPY'' 10 1762203300000)"
    using th [THEN conjunct2, THEN conjunct2, THEN conjunct1] unfolding pnl .
  have c: "dailyPnL (fst (closePosition risk1 ''SPY'' 10 1762203300000)) = 10"
    by (simp add: closePosition_def Let_def risk1_def recordPosition_def risk0_def
        createRiskState_def)
  have d: "risk_positions (fst (closePosition risk1 ''SPY'' 10 1762203300000)) ''SPY'' = None"
    by (simp add: closePosition_def Let_def)
  show ?thesis
    by (simp add: pos a b c d getUTCHours_def getUTCMinutes_def)
qed

text \<open>
  The claim as stated fails: at 20:55 UTC, with an open position and a VWAP of 110 defined
  over three samples, ATR is undefined and the call returns its arguments with no exit.
\<close>

theorem eod_force_exit_counterexample:
  "positions ssLong ''SPY'' \<noteq> None
   \<and> getUTCHours 1762203300000 = 20 \<and> getUTCMinutes 1762203300000 = 55
   \<and> getVWAP (runTicks 0 [t1, t2, t3]) = Some 110
   \<and> evaluateStrategy draws0 ssLong risk1 ''SPY'' 96 110 (Some (runTicks 0 [t1, t2, t3]))
        1762203300000 = ((ssLong, risk1), [])"
proof -
  have d: "dataPoints (runTicks 0 [t1, t2, t3]) =
      [\<lparr>price = 100, high = 100, low = 100, volume = 10, timestamp = 1, vwap = None\<rparr>,
       \<lparr>price = 110, high = 110, low = 110, volume = 10, timestamp = 2, vwap = Some 105\<rparr>,
       \<lparr>price = 120, high = 120, low = 120, volume = 10, timestamp = 3, vwap = Some 110\<rparr>]"
    by (simp add: runTicks_def applyTick_def updateVWAP_def createVWAPState_def Let_def
        orElse_def t1_def t2_def t3_def cong: let_weak_cong)
  have atr: "calculateATR (dataPoints (runTicks 0 [t1, t2, t3])) 14 = None"
    by (simp add: d calculateATR_def)
  have v: "getVWAP (runTicks 0 [t1, t2, t3]) = Some 110"
    by (simp add: runTicks_def applyTick_def updateVWAP_def createVWAPState_def Let_def
        orElse_def getVWAP_def t1_def t2_def t3_def cong: let_weak_cong)
  show ?thesis
    using evaluateStrategy_undefined [of "runTicks 0 [t1, t2, t3]" ssLong] atr v
    by (simp add: ssLong_def getUTCHours_def getUTCMinutes_def)
qed


text \<open>
  The test is \<^verbatim>\<open>hour >= 20 && min >= 55\<close>: at 21:00 UTC the same position, with ATR and RSI
  defined, is handed to \<open>managePosition\<close> and stays open.
\<close>

lemma no_force_exit_at_2100:
  "getUTCHours 1762203600000 = 21 \<and> getUTCMinutes 1762203600000 = 0
   \<and> evaluateStrategy draws0 ssLong risk1 ''SPY'' 96 (299 / 3) (Some vs15) 1762203600000 =
       ((ssLong, risk1), [Logger Debug ''Position status''])"
proof -
  have pos: "positions ssLong ''SPY'' = Some (longPosition cfg0 risk0 ''SPY'' 95 1000)"
    by (simp add: ssLong_def)
  have rsi: "calculateRSI (map price (dataPoints vs15)) (rsiPeriodOf (config ssLong)) = Some 0"
    using vs15_indicators(2) by (simp add: rsiPeriodOf_def ssLong_def cfg0_def)
  have m: "managePosition ssLong risk1 ''SPY'' 96 (299 / 3)
             (longPosition cfg0 risk0 ''SPY'' 95 1000) 1762203600000 =
           ((ssLong, risk1), [Logger Debug ''Position status''])"
    by (simp add: managePosition_def Let_def ssLong_def cfg0_def longPosition_def
        entryQuantity_def orElse_def calculatePnL_def cong: let_weak_cong)
  show ?thesis
    using evaluateStrategy_position [OF vs15_indicators(1) rsi pos, of draws0 risk1 96 "299 / 3"
        1762203600000] m
    by (simp add: getUTCHours_def getUTCMinutes_def)
qed

lemma canOpenPosition_fst:
  "fst (canOpenPosition rnd rs t) = fst (canOpenPosition rnd' rs t)"
  by (simp add: canOpenPosition_def)

lemma checkEntrySignals_gates:
  assumes "gatesOpen rnd ss rs p atr vs t"
  shows "fst (checkEntrySignals rnd ss rs s p v slope atr rsi vs t) =
           (case pendingSignals ss s of
              Some pending \<Rightarrow> fst (checkPending ss rs s p v pending t)
            | None \<Rightarrow> fst (checkNewSignals ss rs s p v rsi t))"
proof -
  note g = assms [unfolded gatesOpen_def]
  note g1 = g [THEN conjunct1]
  note g2 = g [THEN conjunct2, THEN conjunct1]
  note g3 = g [THEN conjunct2, THEN conjunct2, THEN conjunct1]
  note g4 = g [THEN conjunct2, THEN conjunct2, THEN conjunct2, THEN conjunct1]
  note g5 = g [THEN conjunct2, THEN conjunct2, THEN conjunct2, THEN conjunct2, THEN conjunct1]
  note g6 = g [THEN conjunct2, THEN conjunct2, THEN conjunct2, THEN conjunct2, THEN conjunct2]
  show ?thesis
    unfolding checkEntrySignals_fst
    by (simp only: g1 g2 g3 g4 g5 g6 simp_thms if_False)
qed

text \<open>
  Claim C4, as amended. For a flat instrument with a pending signal, when ATR and RSI are
  defined and every gate of \<open>checkEntrySignals\<close> is open, the call removes the pending
  signal, and: a pending long with the price below VWAP is dropped with nothing else changed;
  a pending long with the price at or above VWAP enters a long at the current price and time,
  recorded by the risk manager too; a pending short is dropped above VWAP and entered at or
  below it.
\<close>

theorem pending_signal_resolved:
  assumes "positions ss s = None"
      and "pendingSignals ss s = Some pending"
      and "calculateATR (dataPoints vs) 14 = Some atr"
      and "calculateRSI (map price (dataPoints vs)) (rsiPeriodOf (config ss)) = Some rsi"
      and "gatesOpen rnd ss rs p atr vs t"
  shows "pendingSignals (fst (fst (evaluateStrategy rnd ss rs s p v (Some vs) t))) s = None
       \<and> (signal pending = potential_long \<and> p < v \<longrightarrow>
            fst (evaluateStrategy rnd ss rs s p v (Some vs) t) =
              (ss\<lparr>pendingSignals := (pendingSignals ss)(s := None)\<rparr>, rs))
       \<and> (signal pending = potential_long \<and> p \<ge> v \<longrightarrow>
            positions (fst (fst (evaluateStrategy rnd ss rs s p v (Some vs) t))) s =
              Some (longPosition (config ss) rs s p t)
            \<and> risk_positions (snd (fst (evaluateStrategy rnd ss rs s p v (Some vs) t))) s \<noteq> None)
       \<and> (signal pending = potential_short \<and> p > v \<longrightarrow>
            fst (evaluateStrategy rnd ss rs s p v (Some vs) t) =
              (ss\<lparr>pendingSignals := (pendingSignals ss)(s := None)\<rparr>, rs))
       \<and> (signal pending = potential_short \<and> p \<le> v \<longrightarrow>
            positions (fst (fst (evaluateStrategy rnd ss rs s p v (Some vs) t))) s =
              Some (shortPosition (config ss) rs s p t)
            \<and> risk_positions (snd (fst (evaluateStrategy rnd ss rs s p v (Some vs) t))) s \<noteq> None)"
proof -
  have eq: "fst (evaluateStrategy rnd ss rs s p v (Some vs) t) =
              fst (checkPending ss rs s p v pending t)"
    using evaluateStrategy_flat [OF assms(3) assms(4) assms(1), of rnd rs p v t]
      checkEntrySignals_gates [OF assms(5), of s v _ rsi] assms(2)
    by simp
  show ?thesis
    unfolding eq
    by (cases "signal pending")
       (simp_all add: checkPending_def Let_def enterLongPosition_fst enterShortPosition_fst)
qed

theorem pending_signal_resolved_witness:
  "positions ssPending ''SPY'' = None
   \<and> pendingSignals ssPending ''SPY'' \<noteq> None
   \<and> pendingSignals (fst (fst (evaluateStrategy draws0 ssPending risk0 ''SPY'' 100 (299 / 3)
        (Some vs15) 1762182840000))) ''SPY'' = None
   \<and> positions (fst (fst (evaluateStrategy draws0 ssPending risk0 ''SPY'' 100 (299 / 3)
        (Some vs15) 1762182840000))) ''SPY'' =
        Some (longPosition cfgConfirm risk0 ''SPY'' 100 1762182840000)
   \<and> entryPrice (longPosition cfgConfirm risk0 ''SPY'' 100 1762182840000) = 100
   \<and> pendingSignals (fst (fst (evaluateStrategy draws0 ssPending risk0 ''SPY'' 95 (299 / 3)
        (Some vs15) 1762182840000))) ''SPY'' = None
   \<and> positions (fst (fst (evaluateStrategy draws0 ssPending risk0 ''SPY'' 95 (299 / 3)
        (Some vs15) 1762182840000))) ''SPY'' = None"
proof -
  have flat: "positions ssPending ''SPY'' = None"
    by (simp add: ssPending_def)
  have pend: "pendingSignals ssPending ''SPY'' =
      Some \<lparr>signal = potential_long, triggerCandleTime = 1762182780000, triggerPrice = 95\<rparr>"
    by (simp add: ssPending_def)
  have rsi: "calculateRSI (map price (dataPoints vs15)) (rsiPeriodOf (config ssPending)) = Some 0"
    using vs15_indicators(2) by (simp add: rsiPeriodOf_def ssPending_def cfgConfirm_def cfg0_def)
  have gates: "gatesOpen draws0 ssPending risk0 q (5 / 14) vs15 1762182840000" for q
    by (simp add: gatesOpen_def canOpenPosition_def risk0_def createRiskState_def cfg0_def
        cfgConfirm_def ssPending_def getUTCHours_def getUTCMinutes_def vs15_eval isChoppy_def
        orElse_def)
  note up = pending_signal_resolved [OF flat pend vs15_indicators(1) rsi gates, of 100 "299 / 3"]
  note down = pending_signal_resolved [OF flat pend vs15_indicators(1) rsi gates, of 95 "299 / 3"]
  have a: "pendingSignals (fst (fst (evaluateStrategy draws0 ssPending risk0 ''SPY'' 100 (299 / 3)
        (Some vs15) 1762182840000))) ''SPY'' = None"
    by (rule up [THEN conjunct1])
  have b: "positions (fst (fst (evaluateStrategy draws0 ssPending risk0 ''SPY'' 100 (299 / 3)
        (Some vs15) 1762182840000))) ''SPY'' =
        Some (longPosition cfgConfirm risk0 ''SPY'' 100 1762182840000)"
    using up [THEN conjunct2, THEN conjunct2, THEN conjunct1]
    by (simp add: ssPending_def)
  have c: "pendingSignals (fst (fst (evaluateStrategy draws0 ssPending risk0 ''SPY'' 95 (299 / 3)
        (Some vs15) 1762182840000))) ''SPY'' = None"
    by (rule down [THEN conjunct1])
  have d: "positions (fst (fst (evaluateStrategy draws0 ssPending risk0 ''SPY'' 95 (299 / 3)
        (Some vs15) 1762182840000))) ''SPY'' = None"
    using down [THEN conjunct2, THEN conjunct1] flat by simp
  show ?thesis
    by (simp add: flat pend a b c d longPosition_def)
qed

text \<open>
  The claim as stated fails: with the daily trade cap reached, or with too few samples for
  ATR, the call returns the state as it is and the pending signal is still there, whatever
  the price does, and so on every later call for as long as the gate stays shut.
\<close>

theorem pending_signal_resolved_counterexample:
  "positions ssPending ''SPY'' = None
   \<and> pendingSignals ssPending ''SPY'' \<noteq> None
   \<and> getVWAP vs15 = Some (299 / 3)
   \<and> evaluateStrategy draws0 ssPending riskCapped ''SPY'' 100 (299 / 3) (Some vs15)
        1762182840000 =
       ((ssPending, riskCapped), [Logger Info ''Cannot open position: max daily trades reached''])
   \<and> getVWAP (runTicks 0 [t1, t2, t3]) = Some 110
   \<and> evaluateStrategy draws0 ssPending risk0 ''SPY'' 120 110 (Some (runTicks 0 [t1, t2, t3]))
        1762182840000 = ((ssPending, risk0), [])"
proof -
  have flat: "positions ssPending ''SPY'' = None"
    by (simp add: ssPending_def)
  have rsi: "calculateRSI (map price (dataPoints vs15)) (rsiPeriodOf (config ssPending)) = Some 0"
    using vs15_indicators(2) by (simp add: rsiPeriodOf_def ssPending_def cfgConfirm_def cfg0_def)
  have capped: "checkEntrySignals draws0 ssPending riskCapped ''SPY'' 100 (299 / 3) slope (5 / 14)
                  0 vs15 1762182840000 =
      ((ssPending, riskCapped), [Logger Info ''Cannot open position: max daily trades reached''])"
    for slope
    by (simp add: checkEntrySignals_def canOpenPosition_def riskCapped_def risk0_def
        createRiskState_def cfg0_def)
  have one: "evaluateStrategy draws0 ssPending riskCapped ''SPY'' 100 (299 / 3) (Some vs15)
        1762182840000 =
       ((ssPending, riskCapped), [Logger Info ''Cannot open position: max daily trades reached''])"
    using evaluateStrategy_flat [OF vs15_indicators(1) rsi flat, of draws0 riskCapped 100
        "299 / 3" 1762182840000] capped
    by simp
  have d: "dataPoints (runTicks 0 [t1, t2, t3]) =
      [\<lparr>price = 100, high = 100, low = 100, volume = 10, timestamp = 1, vwap = None\<rparr>,
       \<lparr>price = 110, high = 110, low = 110, volume = 10, timestamp = 2, vwap = Some 105\<rparr>,
       \<lparr>price = 120, high = 120, low = 120, volume = 10, timestamp = 3, vwap = Some 110\<rparr>]"
    by (simp add: runTicks_def applyTick_def updateVWAP_def createVWAPState_def Let_def
        orElse_def t1_def t2_def t3_def cong: let_weak_cong)
  have atr: "calculateATR (dataPoints (runTicks 0 [t1, t2, t3])) 14 = None"
    by (simp add: d calculateATR_def)
  have v: "getVWAP (runTicks 0 [t1, t2, t3]) = Some 110"
    by (simp add: runTicks_def applyTick_def updateVWAP_def createVWAPState_def Let_def
        orElse_def getVWAP_def t1_def t2_def t3_def cong: let_weak_cong)
  have two: "evaluateStrategy draws0 ssPending risk0 ''SPY'' 120 110
               (Some (runTicks 0 [t1, t2, t3])) 1762182840000 = ((ssPending, risk0), [])"
    using evaluateStrategy_undefined [of "runTicks 0 [t1, t2, t3]" ssPending] atr by simp
  show ?thesis
    by (simp add: flat one two v vs15_indicators(3)) (simp add: ssPending_def)
qed


theorem evaluateStrategy_position_maps_witness:
  "positions (createStrategyState cfg0) ''SPY'' = None
   \<and> risk_positions risk0 ''SPY'' = None
   \<and> positions (fst (fst (evaluateStrategy draws0 (createStrategyState cfg0) risk0 ''SPY'' 95
        (299 / 3) (Some vs15) 1762182840000))) ''SPY'' \<noteq> None
   \<and> risk_positions (snd (fst (evaluateStrategy draws0 (createStrategyState cfg0) risk0 ''SPY'' 95
        (299 / 3) (Some vs15) 1762182840000))) ''SPY'' \<noteq> None"
proof -
  let ?ss = "createStrategyState cfg0"
  let ?r = "fst (evaluateStrategy draws0 ?ss risk0 ''SPY'' 95 (299 / 3) (Some vs15) 1762182840000)"
  have flat: "positions ?ss ''SPY'' = None"
    by (simp add: createStrategyState_def)
  have flat': "risk_positions risk0 ''SPY'' = None"
    by (simp add: risk0_def createRiskState_def)
  have rsi: "calculateRSI (map price (dataPoints vs15)) (rsiPeriodOf (config ?ss)) = Some 0"
    using vs15_indicators(2) by (simp add: rsiPeriodOf_def createStrategyState_def cfg0_def)
  have gates: "gatesOpen draws0 ?ss risk0 95 (5 / 14) vs15 1762182840000"
    by (simp add: gatesOpen_def canOpenPosition_def risk0_def createRiskState_def cfg0_def
        createStrategyState_def getUTCHours_def getUTCMinutes_def vs15_eval isChoppy_def
        orElse_def)
  have new: "fst (checkNewSignals ?ss risk0 ''SPY'' 95 (299 / 3) 0 1762182840000) =
               fst (enterLongPosition ?ss risk0 ''SPY'' 95 1762182840000)"
    by (simp add: checkNewSignals_def Let_def createStrategyState_def cfg0_def orElse_def)
  have "?r = fst (enterLongPosition ?ss risk0 ''SPY'' 95 1762182840000)"
    using evaluateStrategy_flat [OF vs15_indicators(1) rsi flat, of draws0 risk0 95 "299 / 3"
        1762182840000]
      checkEntrySignals_gates [OF gates, of "''SPY''" "299 / 3" _ 0] new
    by (simp add: createStrategyState_def)
  then have entered: "positions (fst ?r) ''SPY'' \<noteq> None"
    by (simp add: enterLongPosition_fst)
  have "risk_positions (snd ?r) ''SPY'' \<noteq> None"
    using evaluateStrategy_position_maps [of ?ss "''SPY''" risk0 draws0 "''SPY''" 95 "299 / 3"
        "Some vs15" 1762182840000] flat flat' entered
    by simp
  with flat flat' entered show ?thesis by simp
qed

section \<open>Properties of the replay driver\<close>

subsection \<open>Independence of the clock and of the random draws\<close>

lemma untimed_fields [simp]:
  "price (untimed d) = price d" "high (untimed d) = high d" "low (untimed d) = low d"
  "volume (untimed d) = volume d" "vwap (untimed d) = vwap d"
  by (simp_all add: untimed_def)

lemma map_through_untimed:
  assumes "map untimed xs = map untimed ys" and "\<And>d. f (untimed d) = f d"
  shows "map f xs = map f ys"
proof -
  have "map f xs = map f (map untimed xs)" by (simp add: assms(2))
  also have "\<dots> = map f (map untimed ys)" by (simp only: assms(1))
  also have "\<dots> = map f ys" by (simp add: assms(2))
  finally show ?thesis .
qed

lemma same_length:
  "map untimed xs = map untimed ys \<Longrightarrow> length xs = length ys"
  using map_eq_imp_length_eq by blast

lemma trueRange_untimed: "trueRange (untimed a) (untimed b) = trueRange a b"
  by (simp add: trueRange_def)

lemma trLoop_untimed: "trLoop acc (map untimed xs) = trLoop acc xs"
  by (induction acc xs rule: trLoop.induct) (simp_all add: trueRange_untimed)

lemma slice_last_map: "slice_last n (map f xs) = map f (slice_last n xs)"
  by (simp add: slice_last_def drop_map)

lemma calculateATR_untimed: "calculateATR (map untimed xs) n = calculateATR xs n"
  by (simp add: calculateATR_def slice_last_map trLoop_untimed)

lemma calculateATR_same:
  "map untimed xs = map untimed ys \<Longrightarrow> calculateATR xs n = calculateATR ys n"
  using calculateATR_untimed [of xs n] calculateATR_untimed [of ys n] by simp

lemma getVWAP_same: "sameSamples vs vs' \<Longrightarrow> getVWAP vs = getVWAP vs'"
  using same_length [of "dataPoints vs" "dataPoints vs'"]
  by (simp add: sameSamples_def getVWAP_def)

lemma updateVWAP_fields:
  "period (updateVWAP now vs p v h l) = period vs"
  "dataPoints (updateVWAP now vs p v h l) =
     (if period vs > 0 \<and> int (length (dataPoints vs)) + 1 > period vs
      then tl (dataPoints vs @ [newPoint now vs p v h l])
      else dataPoints vs @ [newPoint now vs p v h l])"
  "cumulativePriceVolume (updateVWAP now vs p v h l) =
     (if period vs > 0 \<and> int (length (dataPoints vs)) + 1 > period vs
      then cumulativePriceVolume vs + p * v
           - price (hd (dataPoints vs @ [newPoint now vs p v h l]))
             * volume (hd (dataPoints vs @ [newPoint now vs p v h l]))
      else cumulativePriceVolume vs + p * v)"
  "cumulativeVolume (updateVWAP now vs p v h l) =
     (if period vs > 0 \<and> int (length (dataPoints vs)) + 1 > period vs
      then cumulativeVolume vs + v - volume (hd (dataPoints vs @ [newPoint now vs p v h l]))
      else cumulativeVolume vs + v)"
  by (simp_all add: updateVWAP_def newPoint_def Let_def)

lemma newPoint_same:
  "cumulativePriceVolume vs = cumulativePriceVolume vs' \<Longrightarrow>
   cumulativeVolume vs = cumulativeVolume vs' \<Longrightarrow>
   untimed (newPoint now vs p v h l) = untimed (newPoint now' vs' p v h l)"
  by (simp add: newPoint_def untimed_def)

lemma hd_untimed:
  assumes "map untimed xs = map untimed ys" and "xs \<noteq> []"
  shows "price (hd xs) = price (hd ys)" and "volume (hd xs) = volume (hd ys)"
proof -
  from assms have ne: "ys \<noteq> []" by auto
  have "hd (map untimed xs) = hd (map untimed ys)"
    by (simp only: assms(1))
  then have "untimed (hd xs) = untimed (hd ys)"
    using assms(2) ne by (simp add: hd_map)
  then have "price (untimed (hd xs)) = price (untimed (hd ys))"
    and "volume (untimed (hd xs)) = volume (untimed (hd ys))" by simp_all
  then show "price (hd xs) = price (hd ys)" and "volume (hd xs) = volume (hd ys)"
    by simp_all
qed

lemma updateVWAP_same:
  assumes "sameSamples vs vs'"
  shows "sameSamples (updateVWAP now vs p v h l) (updateVWAP now' vs' p v h l)"
proof -
  have per: "period vs = period vs'"
    and pv: "cumulativePriceVolume vs = cumulativePriceVolume vs'"
    and cv: "cumulativeVolume vs = cumulativeVolume vs'"
    and m: "map untimed (dataPoints vs) = map untimed (dataPoints vs')"
    using assms by (simp_all add: sameSamples_def)
  have len: "length (dataPoints vs) = length (dataPoints vs')"
    using m by (rule same_length)
  let ?xs = "dataPoints vs @ [newPoint now vs p v h l]"
  let ?ys = "dataPoints vs' @ [newPoint now' vs' p v h l]"
  have m': "map untimed ?xs = map untimed ?ys"
    using m newPoint_same [OF pv cv, of now p v h l now'] by simp
  have tl': "map untimed (tl ?xs) = map untimed (tl ?ys)"
    using arg_cong [OF m', of tl] by (simp only: map_tl)
  have hd': "price (hd ?xs) = price (hd ?ys)" "volume (hd ?xs) = volume (hd ?ys)"
    using hd_untimed [OF m'] by simp_all
  show ?thesis
    unfolding sameSamples_def updateVWAP_fields
    using per pv cv len m' tl' hd' by simp
qed

lemma checkEntrySignals_same:
  assumes "sameSamples vs vs'"
  shows "fst (checkEntrySignals rnd ss rs s p v slope atr rsi vs t) =
         fst (checkEntrySignals rnd' ss rs s p v slope' atr rsi vs' t)"
proof -
  have m: "map untimed (dataPoints vs) = map untimed (dataPoints vs')"
    using assms by (simp add: sameSamples_def)
  have len: "length (dataPoints vs) = length (dataPoints vs')"
    using m by (rule same_length)
  have vol: "map volume (dataPoints vs) = map volume (dataPoints vs')"
    using m by (rule map_through_untimed) simp
  have pr: "map price (dataPoints vs) = map price (dataPoints vs')"
    using m by (rule map_through_untimed) simp
  have vw: "map (\<lambda>d. orElse (vwap d) (price d)) (dataPoints vs) =
            map (\<lambda>d. orElse (vwap d) (price d)) (dataPoints vs')"
    using m by (rule map_through_untimed) simp
  show ?thesis
    unfolding checkEntrySignals_fst
    by (simp only: len vol pr vw canOpenPosition_fst [of "r_cooldown rnd" rs t "r_cooldown rnd'"])
qed

lemma evaluateStrategy_same:
  assumes "sameSamples vs vs'"
  shows "fst (evaluateStrategy rnd ss rs s p v (Some vs) t) =
         fst (evaluateStrategy rnd' ss rs s p v (Some vs') t)"
proof -
  have m: "map untimed (dataPoints vs) = map untimed (dataPoints vs')"
    using assms by (simp add: sameSamples_def)
  have atr: "calculateATR (dataPoints vs) 14 = calculateATR (dataPoints vs') 14"
    using m by (rule calculateATR_same)
  have pr: "map price (dataPoints vs) = map price (dataPoints vs')"
    using m by (rule map_through_untimed) simp
  show ?thesis
  proof (cases "calculateATR (dataPoints vs') 14 = None
             \<or> calculateRSI (map price (dataPoints vs')) (rsiPeriodOf (config ss)) = None")
    case True
    then show ?thesis
      using evaluateStrategy_undefined [of vs ss rnd rs s p v t]
        evaluateStrategy_undefined [of vs' ss rnd' rs s p v t] atr pr
      by simp
  next
    case False
    then obtain a r where a: "calculateATR (dataPoints vs') 14 = Some a"
      and r: "calculateRSI (map price (dataPoints vs')) (rsiPeriodOf (config ss)) = Some r"
      by auto
    have a': "calculateATR (dataPoints vs) 14 = Some a" using a atr by simp
    have r': "calculateRSI (map price (dataPoints vs)) (rsiPeriodOf (config ss)) = Some r"
      using r pr by simp
    show ?thesis
    proof (cases "positions ss s")
      case None
      show ?thesis
        unfolding evaluateStrategy_flat [OF a' r' None] evaluateStrategy_flat [OF a r None]
        by (rule checkEntrySignals_same [OF assms])
    next
      case (Some pos)
      show ?thesis
        unfolding evaluateStrategy_position [OF a' r' Some]
          evaluateStrategy_position [OF a r Some]
        by simp
    qed
  qed
qed


lemma backtestStep_same:
  assumes "sameLoop st st'"
  shows "sameLoop (backtestStep env tz s cfg i prev bar st)
                  (backtestStep env' tz s cfg i prev bar st')"
proof -
  have ss: "loop_strategyState st' = loop_strategyState st"
    and rs: "loop_riskState st' = loop_riskState st"
    and tr: "loop_trades st' = loop_trades st"
    and pk: "loop_peakPnL st' = loop_peakPnL st"
    and dd: "loop_maxDrawdown st' = loop_maxDrawdown st"
    and vs: "sameSamples (loop_vwapState st) (loop_vwapState st')"
    using assms by (simp_all add: sameLoop_def)
  define A where "A = (case prev of None \<Rightarrow> loop_vwapState st
             | Some prev' \<Rightarrow>
                 if getDate tz (Timestamp bar) \<noteq> getDate tz (Timestamp prev') \<and> vwap_period cfg = 0
                 then createVWAPState 0 else loop_vwapState st)"
  define B where "B = (case prev of None \<Rightarrow> loop_vwapState st'
             | Some prev' \<Rightarrow>
                 if getDate tz (Timestamp bar) \<noteq> getDate tz (Timestamp prev') \<and> vwap_period cfg = 0
                 then createVWAPState 0 else loop_vwapState st')"
  define V where "V = updateVWAP (env_clock env i) A (ClosePrice bar) (Volume bar)
              (Some (HighPrice bar)) (Some (LowPrice bar))"
  define W where "W = updateVWAP (env_clock env' i) B (ClosePrice bar) (Volume bar)
              (Some (HighPrice bar)) (Some (LowPrice bar))"
  have refl0: "sameSamples (createVWAPState 0) (createVWAPState 0)"
    by (simp add: sameSamples_def)
  have v0: "sameSamples A B"
    unfolding A_def B_def using vs refl0 by (simp split: option.splits)
  have v: "sameSamples V W"
    unfolding V_def W_def using v0 by (rule updateVWAP_same)
  have g: "getVWAP W = getVWAP V"
    using getVWAP_same [OF v] by simp
  have e: "fst (evaluateStrategy (env_random env' i) ss0 rs0 s p c (Some W) t) =
           fst (evaluateStrategy (env_random env i) ss0 rs0 s p c (Some V) t)" for ss0 rs0 p c t
    by (rule evaluateStrategy_same [OF v, symmetric])
  show ?thesis
    unfolding backtestStep_def Let_def split_def sameLoop_def
      A_def [symmetric] B_def [symmetric] V_def [symmetric] W_def [symmetric]
    by (auto simp add: ss rs tr pk dd g e v split: option.splits)
qed

lemma backtestLoop_same:
  "sameLoop st st' \<Longrightarrow>
     sameLoop (backtestLoop env tz s cfg i prev bars st)
              (backtestLoop env' tz s cfg i prev bars st')"
proof (induction bars arbitrary: i prev st st')
  case Nil
  then show ?case by simp
next
  case (Cons bar bars)
  show ?case
    unfolding backtestLoop.simps
    by (rule Cons.IH) (rule backtestStep_same [OF Cons.prems])
qed

lemma backtestFinal_same:
  "sameLoop (backtestFinal env tz s bars cfg) (backtestFinal env' tz s bars cfg)
   \<or> (bars = [] \<and> backtestFinal env tz s bars cfg = backtestInit env tz [] cfg
                 \<and> backtestFinal env' tz s bars cfg = backtestInit env' tz [] cfg)"
proof (cases bars)
  case Nil
  then show ?thesis by (simp add: backtestFinal_def)
next
  case (Cons bar rest)
  have "sameLoop (backtestInit env tz bars cfg) (backtestInit env' tz bars cfg)"
    by (simp add: Cons backtestInit_def sameLoop_def sameSamples_def)
  then show ?thesis
    unfolding backtestFinal_def by (intro disjI1 backtestLoop_same)
qed

text \<open>
  Claim C8. The replay driver is deterministic: for every bar sequence and configuration,
  two runs of \<open>runBacktest\<close> on the same symbol, bars and configuration return the same
  result (trade list, counts, total profit and loss, win rate and maximum drawdown), whatever the
  wall-clock readings stored in the VWAP samples and whatever the random draws behind the
  debug lines are in each run. The time zone of the host, which \<open>getDate\<close> and the daily reset
  read, is the same in both runs.
\<close>

theorem runBacktest_deterministic:
  "fst (runBacktest env tz s bars cfg) = fst (runBacktest env' tz s bars cfg)"
  using backtestFinal_same [of env tz s bars cfg env']
  by (auto simp add: runBacktest_def Let_def sameLoop_def backtestInit_def createRiskState_def)

subsection \<open>The end-to-end scenario\<close>

lemma calculateATR_short: "length xs < 15 \<Longrightarrow> calculateATR xs 14 = None"
  by (simp add: calculateATR_def)

lemma updateVWAP_length:
  "length (dataPoints (updateVWAP now vs p v h l)) \<le> Suc (length (dataPoints vs))"
  by (simp add: updateVWAP_def Let_def)

lemma checkDailyReset_log: "filter isTradeEnter (snd (checkDailyReset tz rs t)) = []"
  by (simp add: checkDailyReset_def isTradeEnter_def)

lemma backtestStep_short:
  assumes "shortHistory n cfg st" and "n < 14"
  shows "shortHistory (Suc n) cfg (backtestStep env tz s cfg i prev bar st)"
proof -
  define A where "A = (case prev of None \<Rightarrow> loop_vwapState st
             | Some prev' \<Rightarrow>
                 if getDate tz (Timestamp bar) \<noteq> getDate tz (Timestamp prev') \<and> vwap_period cfg = 0
                 then createVWAPState 0 else loop_vwapState st)"
  define V where "V = updateVWAP (env_clock env i) A (ClosePrice bar) (Volume bar)
              (Some (HighPrice bar)) (Some (LowPrice bar))"
  have len: "length (dataPoints (loop_vwapState st)) \<le> n"
    and ss: "loop_strategyState st = createStrategyState cfg"
    and tr: "loop_trades st = []"
    and lg: "filter isTradeEnter (loop_log st) = []"
    using assms(1) by (simp_all add: shortHistory_def)
  have "length (dataPoints A) \<le> n"
    unfolding A_def using len by (simp add: createVWAPState_def split: option.splits)
  then have lenV: "length (dataPoints V) \<le> Suc n"
    unfolding V_def
    using updateVWAP_length [of "env_clock env i" A "ClosePrice bar" "Volume bar"
        "Some (HighPrice bar)" "Some (LowPrice bar)"]
    by simp
  then have "calculateATR (dataPoints V) 14 = None"
    using assms(2) by (intro calculateATR_short) simp
  then have ev: "evaluateStrategy rnd ss0 rs0 s p c (Some V) t = ((ss0, rs0), [])"
    for rnd ss0 rs0 p c t
    by (intro evaluateStrategy_undefined) simp
  have flat: "positions (createStrategyState cfg) s = None"
    by (simp add: createStrategyState_def)
  show ?thesis
    unfolding backtestStep_def Let_def split_def shortHistory_def
      A_def [symmetric] V_def [symmetric]
    by (simp add: ev ss tr lg lenV flat checkDailyReset_log split: option.splits)
qed

lemma backtestLoop_short:
  "shortHistory n cfg st \<Longrightarrow> n + length bars < 15 \<Longrightarrow>
     shortHistory (n + length bars) cfg (backtestLoop env tz s cfg i prev bars st)"
proof (induction bars arbitrary: n i prev st)
  case Nil
  then show ?case by simp
next
  case (Cons bar bars)
  from Cons.prems have n: "n < 14" by simp
  have "shortHistory (Suc n + length bars) cfg
          (backtestLoop env tz s cfg (Suc i) (Some bar) bars
             (backtestStep env tz s cfg i prev bar st))"
    using Cons.prems by (intro Cons.IH backtestStep_short [OF _ n]) simp_all
  then show ?case by simp
qed

lemma short_run_opens_nothing:
  assumes "length bars < 15"
  shows "positions (loop_strategyState (backtestFinal env tz s bars cfg)) = Map.empty
       \<and> filter isTradeEnter (loop_log (backtestFinal env tz s bars cfg)) = []
       \<and> trades (fst (runBacktest env tz s bars cfg)) = []"
proof -
  have "shortHistory 0 cfg (backtestInit env tz bars cfg)"
    by (simp add: shortHistory_def backtestInit_def createVWAPState_def isTradeEnter_def)
  then have "shortHistory (0 + length bars) cfg (backtestFinal env tz s bars cfg)"
    unfolding backtestFinal_def using assms by (intro backtestLoop_short) simp_all
  then show ?thesis
    by (simp add: shortHistory_def runBacktest_def Let_def createStrategyState_def)
qed

lemmas run_defs = backtestFinal_def backtestInit_def backtestStep_def Let_def
  createVWAPState_def createStrategyState_def createRiskState_def getNextResetTime_def
  nextLocalMidnight_def checkDailyReset_def updateVWAP_def getVWAP_def orElse_def getDate_def
  evaluateStrategy_def calculateATR_def calculateRSI_def calculateVWAPSlope_def slice_last_def

lemmas strategy_defs = checkEntrySignals_def canOpenPosition_def checkNewSignals_def
  checkPending_def enterLongPosition_def enterShortPosition_def recordPosition_def
  managePosition_def exitPosition_def closePosition_def calculatePnL_def isChoppy_def
  withLog_def getUTCHours_def getUTCMinutes_def trueRange_def

lemmas sample_defs = bars5_def bars14_def bars16_def bar100_def bar95_def env0_def draws0_def
  cfg5_def cfg0_def

text \<open>
  The log of a run, unlike its result, does depend on the draws: on fourteen bars at 100 and
  one at 95 the evaluation line is absent when every draw is 1/2 and present when the draw
  behind it is 0.
\<close>

lemma log_depends_on_draws:
  "Logger Info ''Eval'' \<notin> set (snd (runBacktest env0 0 ''SPY'' (bars14 @ [bar95 14]) cfg5))
   \<and> Logger Info ''Eval'' \<in> set (snd (runBacktest
         (env0\<lparr>env_random := (\<lambda>i. draws0\<lparr>r_eval := 0\<rparr>)\<rparr>) 0 ''SPY'' (bars14 @ [bar95 14]) cfg5))"
  by (simp add: runBacktest_def run_defs strategy_defs sample_defs cong: let_weak_cong)

text \<open>
  Claim C5, as amended. With period 0, an entry threshold of 2 percent, no confirmation candle and
  a permissive RSI filter, bars of volume 1000 inside the session open nothing while fewer
  than fifteen bars have been replayed (ATR, of period 14, is undefined and \<open>evaluateStrategy\<close>
  returns its arguments). After fourteen bars closing at 100, the first bar closing at 95
  (4.7 percent below the VWAP of 299/3) opens a long position of 10 units at 95, with the stop at
  93.1 and the target at 99.75; the next bar at 95 leaves that position in place, and the
  trade log of the run holds that one entry.
\<close>

theorem long_opens_with_history:
  "map ClosePrice bars16 =
     [100, 100, 100, 100, 100, 100, 100, 100, 100, 100, 100, 100, 100, 100, 95, 95]
   \<and> positions (loop_strategyState (backtestFinal env0 0 ''SPY'' bars5 cfg5)) ''SPY'' = None
   \<and> positions (loop_strategyState (backtestFinal env0 0 ''SPY'' bars14 cfg5)) ''SPY'' = None
   \<and> positions (loop_strategyState (backtestFinal env0 0 ''SPY'' (bars14 @ [bar95 14]) cfg5))
        ''SPY'' = Some (longPosition cfg5 (createRiskState 0 cfg5 (Timestamp (bar100 0))) ''SPY''
                          95 (Timestamp (bar95 14)))
   \<and> positions (loop_strategyState (backtestFinal env0 0 ''SPY'' bars16 cfg5)) ''SPY'' =
        Some (longPosition cfg5 (createRiskState 0 cfg5 (Timestamp (bar100 0))) ''SPY''
                95 (Timestamp (bar95 14)))
   \<and> filter isTradeEnter (loop_log (backtestFinal env0 0 ''SPY'' bars16 cfg5)) =
        [TradeEnter \<lparr>enter_side = long, enter_symbol = ''SPY'', enter_price = 95,
                      enter_quantity = 10, enter_stopLoss = 931 / 10,
                      enter_takeProfit = 399 / 4, enter_timestamp = Timestamp (bar95 14)\<rparr>]"
  by (simp add: run_defs strategy_defs sample_defs longPosition_def entryQuantity_def
      isTradeEnter_def cong: let_weak_cong)

text \<open>
  The claim as stated fails: on the five bars closing at 100, 100, 100, 95, 95 with volume
  1000, the run ends with a VWAP of 98, no position, no trade, and a log that holds only the
  starting line.
\<close>

theorem five_bars_open_nothing:
  "map ClosePrice bars5 = [100, 100, 100, 95, 95]
   \<and> map Volume bars5 = [1000, 1000, 1000, 1000, 1000]
   \<and> vwap_period cfg5 = 0 \<and> entry_threshold cfg5 = 0.02
   \<and> require_confirmation cfg5 = Some False
   \<and> getVWAP (loop_vwapState (backtestFinal env0 0 ''SPY'' bars5 cfg5)) = Some 98
   \<and> positions (loop_strategyState (backtestFinal env0 0 ''SPY'' bars5 cfg5)) ''SPY'' = None
   \<and> loop_log (backtestFinal env0 0 ''SPY'' bars5 cfg5) = [Logger Info ''Starting backtest'']
   \<and> trades (fst (runBacktest env0 0 ''SPY'' bars5 cfg5)) = []"
  by (simp add: runBacktest_def run_defs sample_defs cong: let_weak_cong)

end
